theory Spec2Isabelle
  imports Complex_Main "HOL-Library.Word"
begin

unbundle bit_operations_syntax

section \<open>Strings and numbers of the source\<close>

text \<open>
  A Python \<open>str\<close> is a sequence of Unicode code points. The bullet glyphs of the
  program lie outside ASCII, so a string is modelled as the list of its code points;
  \<open>length\<close> then counts what Python's \<open>len\<close> counts. ASCII literals are embedded
  with \<open>str_of\<close>.

  Font sizes and coordinates are Python floats, that is IEEE 754 doubles. A finite double
  is modelled as the real number it denotes, so a comparison of the source is the
  comparison of the reals. The arithmetic of the source is not the arithmetic of the
  reals: every operation rounds its result to a double (section Double arithmetic).
\<close>

type_synonym pystr = "nat list"

definition str_of :: "string \<Rightarrow> pystr" where
  "str_of s = map of_char s"

section \<open>Span Classifier: heading level\<close>

text \<open>\<open>PDFFormatter._calculate_heading_level(size, is_bold, font)\<close>.\<close>

definition calculate_heading_level :: "real \<Rightarrow> bool \<Rightarrow> pystr \<Rightarrow> int" where
  "calculate_heading_level sz is_bold font =
     (if sz \<le> 10 then 0
      else if sz \<ge> 20 then 1
      else if sz \<ge> 18 then 2
      else if sz \<ge> 16 then 3
      else if sz \<ge> 14 \<or> (is_bold \<and> sz \<ge> 12) then 4
      else if is_bold \<and> sz \<ge> 11 then 5
      else if sz \<ge> 13 then 6
      else 0)"

text \<open>
  The tier table as the specification words it: an ordered list of guarded levels,
  evaluated top-down, the first guard that holds giving the level, and level 0 when no
  guard holds.
\<close>

definition spec_tiers :: "((real \<Rightarrow> bool \<Rightarrow> bool) \<times> int) list" where
  "spec_tiers =
     [(\<lambda>sz bold. sz \<le> 10, 0),
      (\<lambda>sz bold. sz \<ge> 20, 1),
      (\<lambda>sz bold. sz \<ge> 18, 2),
      (\<lambda>sz bold. sz \<ge> 16, 3),
      (\<lambda>sz bold. sz \<ge> 14 \<or> (bold \<and> sz \<ge> 12), 4),
      (\<lambda>sz bold. bold \<and> sz \<ge> 11, 5),
      (\<lambda>sz bold. sz \<ge> 13, 6)]"

fun first_match :: "((real \<Rightarrow> bool \<Rightarrow> bool) \<times> int) list \<Rightarrow> real \<Rightarrow> bool \<Rightarrow> int" where
  "first_match [] sz bold = 0"
| "first_match ((g, lvl) # ts) sz bold = (if g sz bold then lvl else first_match ts sz bold)"

definition spec_heading_level :: "real \<Rightarrow> bool \<Rightarrow> int" where
  "spec_heading_level sz bold = first_match spec_tiers sz bold"

section \<open>Text primitives\<close>

text \<open>
  \<open>is_space\<close> is the whitespace test behind \<open>str.strip()\<close> and behind \<open>\s\<close> in a
  \<open>str\<close> pattern of \<open>re\<close>: the code points for which \<open>str.isspace\<close> holds.
\<close>

definition is_space :: "nat \<Rightarrow> bool" where
  "is_space c =
     ((9 \<le> c \<and> c \<le> 13) \<or> (28 \<le> c \<and> c \<le> 32) \<or> c = 133 \<or> c = 160 \<or> c = 5760
      \<or> (8192 \<le> c \<and> c \<le> 8202) \<or> c = 8232 \<or> c = 8233 \<or> c = 8239 \<or> c = 8287
      \<or> c = 12288)"

definition py_strip :: "pystr \<Rightarrow> pystr" where
  "py_strip s = rev (dropWhile is_space (rev (dropWhile is_space s)))"

definition startswith :: "pystr \<Rightarrow> pystr \<Rightarrow> bool" where
  "startswith s p = (take (length p) s = p)"

text \<open>\<open>sep.join(parts)\<close>.\<close>

fun py_join :: "pystr \<Rightarrow> pystr list \<Rightarrow> pystr" where
  "py_join sep [] = []"
| "py_join sep [x] = x"
| "py_join sep (x # y # ys) = x @ sep @ py_join sep (y # ys)"

text \<open>
  The classes \<open>\d\<close> and \<open>\w\<close> of a \<open>str\<close> pattern follow the Unicode character
  database. On ASCII they are the digits, and the letters, digits and underscore; beyond
  ASCII the database is a parameter of the model.
\<close>

record unicode_classes =
  uni_digit :: "nat \<Rightarrow> bool"
  uni_word :: "nat \<Rightarrow> bool"

definition ascii_digit :: "nat \<Rightarrow> bool" where
  "ascii_digit c = (48 \<le> c \<and> c \<le> 57)"

definition ascii_lower :: "nat \<Rightarrow> bool" where
  "ascii_lower c = (97 \<le> c \<and> c \<le> 122)"

definition ascii_upper :: "nat \<Rightarrow> bool" where
  "ascii_upper c = (65 \<le> c \<and> c \<le> 90)"

definition ascii_letter :: "nat \<Rightarrow> bool" where
  "ascii_letter c = (ascii_lower c \<or> ascii_upper c)"

definition re_digit :: "unicode_classes \<Rightarrow> nat \<Rightarrow> bool" where
  "re_digit U c = (if c < 128 then ascii_digit c else uni_digit U c)"

definition re_word :: "unicode_classes \<Rightarrow> nat \<Rightarrow> bool" where
  "re_word U c = (if c < 128 then ascii_letter c \<or> ascii_digit c \<or> c = 95 else uni_word U c)"

text \<open>A database with nothing beyond ASCII, for evaluating the model on ASCII text.\<close>

definition ascii_only :: unicode_classes where
  "ascii_only = \<lparr>uni_digit = (\<lambda>c. False), uni_word = (\<lambda>c. False)\<rparr>"

subsection \<open>The fragment of \<open>re\<close> the program uses\<close>

text \<open>
  Every pattern of the source is anchored at the start and is a sequence of character
  classes, each taken once, one or more times (\<open>+\<close>) or zero or more times (\<open>*\<close>).
  \<open>rmatch\<close> is the backtracking matcher on that fragment: a repetition is greedy, and
  gives characters back when the rest of the pattern fails. It returns the text that
  follows the match, so \<open>re.match(p, s)\<close> succeeds iff \<open>rmatch p s \<noteq> None\<close>.
\<close>

datatype rx = Once "nat \<Rightarrow> bool" | Plus "nat \<Rightarrow> bool" | Star "nat \<Rightarrow> bool"

fun rmatch :: "rx list \<Rightarrow> pystr \<Rightarrow> pystr option" where
  "rmatch [] s = Some s"
| "rmatch (Once p # r) [] = None"
| "rmatch (Once p # r) (c # cs) = (if p c then rmatch r cs else None)"
| "rmatch (Plus p # r) [] = None"
| "rmatch (Plus p # r) (c # cs) = (if p c then rmatch (Star p # r) cs else None)"
| "rmatch (Star p # r) [] = rmatch r []"
| "rmatch (Star p # r) (c # cs) =
     (if p c then (case rmatch (Star p # r) cs of Some rest \<Rightarrow> Some rest | None \<Rightarrow> rmatch r (c # cs))
      else rmatch r (c # cs))"

definition re_match :: "rx list \<Rightarrow> pystr \<Rightarrow> bool" where
  "re_match p s = (rmatch p s \<noteq> None)"

text \<open>
  \<open>re.sub(p, '', s)\<close> for an anchored pattern that cannot match the empty string: only a
  match at position 0 is possible, and it is removed.
\<close>

definition re_sub_prefix :: "rx list \<Rightarrow> pystr \<Rightarrow> pystr" where
  "re_sub_prefix p s = (case rmatch p s of None \<Rightarrow> s | Some rest \<Rightarrow> rest)"

definition is_char :: "nat \<Rightarrow> nat \<Rightarrow> bool" where
  "is_char k c = (c = k)"

section \<open>List Detector\<close>

datatype list_type = Bullet | Numbered | Lettered | Roman

text \<open>
  \<open>self.bullet_patterns\<close>: the glyphs U+2022, U+25CF, U+25E6, U+25AA, U+25AB, U+25A0,
  U+25A1, U+25C6, U+25C7, the hyphen and the asterisk, in the order of the source.
\<close>

definition bullet_patterns :: "pystr list" where
  "bullet_patterns = [[8226], [9679], [9702], [9642], [9643], [9632], [9633], [9670], [9671], [45], [42]]"

definition roman_lower :: "nat \<Rightarrow> bool" where
  "roman_lower c = (c \<in> set [105, 118, 120, 108, 99, 100, 109])"

definition roman_upper :: "nat \<Rightarrow> bool" where
  "roman_upper c = (c \<in> set [73, 86, 88, 76, 67, 68, 77])"

definition roman_lower_rx :: "rx list" where
  "roman_lower_rx = [Plus roman_lower, Once (is_char 46), Once is_space]"

definition roman_upper_rx :: "rx list" where
  "roman_upper_rx = [Plus roman_upper, Once (is_char 46), Once is_space]"

text \<open>
  The two bullet tests of the source: \<open>_is_list_item\<close> asks for a glyph followed by a
  space or a tab, \<open>_get_list_type\<close> and the renderers for the glyph alone.
\<close>

definition has_bullet_marker :: "pystr \<Rightarrow> bool" where
  "has_bullet_marker text =
     list_ex (\<lambda>bullet. startswith text (bullet @ [32]) \<or> startswith text (bullet @ [9])) bullet_patterns"

definition has_bullet_glyph :: "pystr \<Rightarrow> bool" where
  "has_bullet_glyph text = list_ex (\<lambda>bullet. startswith text bullet) bullet_patterns"

text \<open>The six \<open>numbered_patterns\<close> of \<open>_is_list_item\<close>, in the order of the source.\<close>

definition numbered_patterns :: "unicode_classes \<Rightarrow> rx list list" where
  "numbered_patterns U =
     [[Plus (re_digit U), Once (is_char 46), Once is_space],
      [Plus (re_digit U), Once (is_char 41), Once is_space],
      [Once ascii_letter, Once (is_char 46), Once is_space],
      [Once ascii_letter, Once (is_char 41), Once is_space],
      roman_lower_rx,
      roman_upper_rx]"

text \<open>\<open>PDFFormatter._is_list_item(text)\<close>.\<close>

definition is_list_item :: "unicode_classes \<Rightarrow> pystr \<Rightarrow> bool" where
  "is_list_item U text =
     (if text = [] then False
      else if has_bullet_marker text then True
      else if list_ex (\<lambda>pattern. re_match pattern text) (numbered_patterns U) then True
      else False)"

text \<open>The three patterns of \<open>_get_list_type\<close>.\<close>

definition dot_or_paren :: "nat \<Rightarrow> bool" where
  "dot_or_paren c = (c = 46 \<or> c = 41)"

definition numbered_rx :: "unicode_classes \<Rightarrow> rx list" where
  "numbered_rx U = [Plus (re_digit U), Once dot_or_paren, Once is_space]"

definition lettered_rx :: "rx list" where
  "lettered_rx = [Once ascii_letter, Once dot_or_paren, Once is_space]"

definition roman_mixed :: "nat \<Rightarrow> bool" where
  "roman_mixed c = (roman_lower c \<or> roman_upper c)"

definition roman_rx :: "rx list" where
  "roman_rx = [Plus roman_mixed, Once (is_char 46), Once is_space]"

text \<open>\<open>PDFFormatter._get_list_type(text)\<close>; \<open>None\<close> is Python's \<open>None\<close>.\<close>

definition get_list_type :: "unicode_classes \<Rightarrow> pystr \<Rightarrow> list_type option" where
  "get_list_type U text =
     (if text = [] then None
      else if has_bullet_glyph text then Some Bullet
      else if re_match (numbered_rx U) text then Some Numbered
      else if re_match lettered_rx text then Some Lettered
      else if re_match roman_rx text then Some Roman
      else Some Bullet)"

text \<open>
  The List Detector as the Block Assembler runs it on a trimmed span text:
  \<open>is_list_item = self._is_list_item(text)\<close> and
  \<open>list_type = self._get_list_type(text) if is_list_item else None\<close>.
\<close>

definition list_detector :: "unicode_classes \<Rightarrow> pystr \<Rightarrow> bool \<times> list_type option" where
  "list_detector U text =
     (let is_list = is_list_item U text
      in (is_list, if is_list then get_list_type U text else None))"

section \<open>Double arithmetic\<close>

text \<open>
  The sum, difference and product of two Python floats is the exact result rounded to the
  nearest double, ties to the even significand. A double has 53 significant bits: a value
  of magnitude in \<open>[2^e, 2^(e+1))\<close> is a multiple of \<open>2^(e - 52)\<close>, with \<open>e\<close> not below
  \<open>-1022\<close> (below that the spacing stays \<open>2^(-1074)\<close>). Results of magnitude \<open>2^1024\<close> or
  more, which overflow to infinity, and NaN are outside the model.
\<close>

function exponent_up :: "real \<Rightarrow> int \<Rightarrow> int" where
  "exponent_up x k = (if 2 \<le> x \<and> k < 1023 then exponent_up (x / 2) (k + 1) else k)"
  by pat_completeness auto
termination
  by (relation "measure (\<lambda>(x, k). nat (1023 - k))") auto

function exponent_down :: "real \<Rightarrow> int \<Rightarrow> int" where
  "exponent_down x k = (if x < 1 \<and> - 1022 < k then exponent_down (2 * x) (k - 1) else k)"
  by pat_completeness auto
termination
  by (relation "measure (\<lambda>(x, k). nat (k + 1022))") auto

declare exponent_up.simps [simp del] exponent_down.simps [simp del]

text \<open>The exponent \<open>e\<close> of a real: \<open>2^e \<le> |x| < 2^(e+1)\<close>, kept within \<open>-1022 .. 1023\<close>.\<close>

definition double_exponent :: "real \<Rightarrow> int" where
  "double_exponent x = (if 1 \<le> \<bar>x\<bar> then exponent_up \<bar>x\<bar> 0 else exponent_down \<bar>x\<bar> 0)"

definition pow2 :: "int \<Rightarrow> real" where
  "pow2 k = (if 0 \<le> k then 2 ^ nat k else 1 / 2 ^ nat (- k))"

definition round_half_even :: "real \<Rightarrow> int" where
  "round_half_even y =
     (let n = \<lfloor>y\<rfloor>; r = y - of_int n
      in if r < 1 / 2 then n else if 1 / 2 < r then n + 1 else if even n then n else n + 1)"

text \<open>The double nearest to a real; also the value of a decimal literal of the source.\<close>

definition round_double :: "real \<Rightarrow> real" where
  "round_double x =
     (if x = 0 then 0
      else (let ulp = pow2 (double_exponent x - 52)
            in of_int (round_half_even (x / ulp)) * ulp))"

definition dbl_add :: "real \<Rightarrow> real \<Rightarrow> real" where
  "dbl_add a b = round_double (a + b)"

definition dbl_sub :: "real \<Rightarrow> real \<Rightarrow> real" where
  "dbl_sub a b = round_double (a - b)"

definition dbl_mul :: "real \<Rightarrow> real \<Rightarrow> real" where
  "dbl_mul a b = round_double (a * b)"

section \<open>Alignment Detector\<close>

datatype alignment = AlignLeft | AlignCenter | AlignRight

text \<open>A bounding box is the 4-tuple \<open>(x0, y0, x1, y1)\<close> of the extractor.\<close>

type_synonym bbox = "real \<times> real \<times> real \<times> real"

text \<open>
  \<open>PDFFormatter._detect_text_alignment(line_bbox, page_width, block_bbox=None)\<close>.
  An argument that is \<open>None\<close> is falsy; a 4-tuple is truthy and has length 4, so the length
  tests of the source hold for every bounding box. The literals \<open>0.1\<close>, \<open>0.05\<close> and \<open>0.3\<close>
  are the doubles nearest to them, and \<open>abs\<close> and the comparisons are exact.
\<close>

definition detect_text_alignment :: "bbox option \<Rightarrow> real \<Rightarrow> bbox option \<Rightarrow> alignment" where
  "detect_text_alignment line_bbox page_width block_bbox =
     (case line_bbox of
        None \<Rightarrow> AlignLeft
      | Some (x0, y0, x1, y1) \<Rightarrow>
          (let (container_left, container_width) =
                 (case block_bbox of
                    None \<Rightarrow> (0, page_width)
                  | Some (b0, b1, b2, b3) \<Rightarrow> (b0, dbl_sub b2 b0));
               line_left_margin = dbl_sub x0 container_left;
               line_right_margin = dbl_sub (dbl_add container_left container_width) x1;
               center_threshold = dbl_mul (round_double (1 / 10)) container_width;
               margin_threshold = dbl_mul (round_double (5 / 100)) container_width
           in if \<bar>dbl_sub line_left_margin line_right_margin\<bar> < center_threshold then AlignCenter
              else if line_right_margin < margin_threshold
                      \<and> line_left_margin > dbl_mul container_width (round_double (3 / 10))
                   then AlignRight
              else if line_left_margin < margin_threshold then AlignLeft
              else AlignLeft))"

text \<open>
  The detector as the specification words it, in the arithmetic of the reals: the
  container, the two margins, and the ordered decision.
\<close>

definition spec_container :: "real \<Rightarrow> bbox option \<Rightarrow> real \<times> real" where
  "spec_container page_width block_bbox =
     (case block_bbox of None \<Rightarrow> (0, page_width) | Some (b0, b1, b2, b3) \<Rightarrow> (b0, b2 - b0))"

definition spec_alignment :: "real \<Rightarrow> real \<Rightarrow> real \<Rightarrow> alignment" where
  "spec_alignment leftMargin rightMargin containerWidth =
     (if \<bar>leftMargin - rightMargin\<bar> < 0.10 * containerWidth then AlignCenter
      else if rightMargin < 0.05 * containerWidth \<and> leftMargin > 0.30 * containerWidth then AlignRight
      else AlignLeft)"

text \<open>The same wording with every operation in double arithmetic.\<close>

definition double_container :: "real \<Rightarrow> bbox option \<Rightarrow> real \<times> real" where
  "double_container page_width block_bbox =
     (case block_bbox of None \<Rightarrow> (0, page_width) | Some (b0, b1, b2, b3) \<Rightarrow> (b0, dbl_sub b2 b0))"

definition double_alignment :: "real \<Rightarrow> real \<Rightarrow> real \<Rightarrow> alignment" where
  "double_alignment leftMargin rightMargin containerWidth =
     (if \<bar>dbl_sub leftMargin rightMargin\<bar> < dbl_mul (round_double (1 / 10)) containerWidth
      then AlignCenter
      else if rightMargin < dbl_mul (round_double (5 / 100)) containerWidth
              \<and> leftMargin > dbl_mul containerWidth (round_double (3 / 10))
      then AlignRight
      else AlignLeft)"

section \<open>Block Assembler\<close>

text \<open>\<open>PDFFormatter._bbox_overlap(bbox1, bbox2)\<close>.\<close>

fun bbox_overlap :: "bbox \<Rightarrow> bbox \<Rightarrow> bool" where
  "bbox_overlap (a0, a1, a2, a3) (b0, b1, b2, b3) = (\<not> (a2 < b0 \<or> b2 < a0 \<or> a3 < b1 \<or> b3 < a1))"

subsection \<open>The extractor's output\<close>

text \<open>
  The dictionaries of \<open>page.get_text("dict")\<close>. A key the source reads with \<open>.get\<close> or
  tests with \<open>in\<close> may be absent and is an option; a key it reads with \<open>[...]\<close> is always
  supplied by the extractor.
\<close>

record raw_span =
  rs_text :: pystr
  rs_flags :: int
  rs_size :: real
  rs_font :: "pystr option"

record raw_line =
  rl_bbox :: "bbox option"
  rl_spans :: "raw_span list"

record raw_block =
  rb_lines :: "raw_line list option"
  rb_bbox :: "bbox option"

text \<open>
  Table detection is an external collaborator and every call of it may raise.
  \<open>page.find_tables()\<close> raises or returns the tables found; \<open>table.extract()\<close> raises or
  returns the grid of cells, each a string or \<open>None\<close>.
\<close>

datatype exn = Raised

type_synonym grid = "pystr option list list"

record found_table =
  ft_extract :: "exn + grid"
  ft_bbox :: bbox

record page =
  pg_width :: real
  pg_blocks :: "raw_block list"
  pg_find_tables :: "exn + found_table list"

subsection \<open>The block stream\<close>

record span =
  sp_text :: pystr
  sp_bold :: bool
  sp_italic :: bool
  sp_size :: real
  sp_font :: pystr
  sp_heading :: int
  sp_is_list :: bool
  sp_list_type :: "list_type option"
  sp_alignment :: alignment
  sp_bbox :: bbox

datatype block_type = Heading | ListBlock | Paragraph | PlainText

text \<open>
  A block of the stream is a dictionary with key \<open>type\<close>: a text block has \<open>content\<close>,
  \<open>type\<close> and \<open>bbox\<close>, a table has \<open>data\<close>, \<open>bbox\<close> and type \<open>table\<close>.
\<close>

datatype block =
  TextBlock "span list list" block_type bbox
| TableBlock grid bbox

fun is_text_block :: "block \<Rightarrow> bool" where
  "is_text_block (TextBlock content ty bb) = True"
| "is_text_block (TableBlock data bb) = False"

fun block_bbox :: "block \<Rightarrow> bbox" where
  "block_bbox (TextBlock content ty bb) = bb"
| "block_bbox (TableBlock data bb) = bb"

text \<open>\<open>PDFFormatter._detect_block_type(block_content, y_positions)\<close>.\<close>

definition detect_block_type :: "span list list \<Rightarrow> real list \<Rightarrow> block_type" where
  "detect_block_type block_content y_positions =
     (case block_content of
        [] \<Rightarrow> PlainText
      | first_line # _ \<Rightarrow>
          if (case first_line of [] \<Rightarrow> False | s # _ \<Rightarrow> sp_heading s > 0) then Heading
          else if list_ex (\<lambda>line. case line of [] \<Rightarrow> False | s # _ \<Rightarrow> sp_is_list s) block_content
               then ListBlock
          else Paragraph)"

subsection \<open>\<open>PDFFormatter.extract_with_formatting\<close>\<close>

text \<open>
  The \<open>try\<close> block: the loop over the tables found appends one entry per table; an
  exception anywhere in the block leaves it, and \<open>except: pass\<close> swallows it. What was
  appended before the exception stays in \<open>tables\<close>.
\<close>

fun collect_tables :: "found_table list \<Rightarrow> (grid \<times> bbox) list \<Rightarrow> (grid \<times> bbox) list" where
  "collect_tables [] tables = tables"
| "collect_tables (t # ts) tables =
     (case ft_extract t of
        Inl e \<Rightarrow> tables
      | Inr table_data \<Rightarrow> collect_tables ts (tables @ [(table_data, ft_bbox t)]))"

definition detect_tables :: "string \<Rightarrow> page \<Rightarrow> (grid \<times> bbox) list" where
  "detect_tables layout_mode pg =
     (if layout_mode = ''preserve''
      then (case pg_find_tables pg of Inl e \<Rightarrow> [] | Inr page_tables \<Rightarrow> collect_tables page_tables [])
      else [])"

definition zero_bbox :: bbox where
  "zero_bbox = (0, 0, 0, 0)"

definition get_bbox :: "bbox option \<Rightarrow> bbox" where
  "get_bbox b = (case b of None \<Rightarrow> zero_bbox | Some bb \<Rightarrow> bb)"

text \<open>The body of the loop over the spans of a line; a span whose trimmed text is empty is dropped.\<close>

definition make_span :: "unicode_classes \<Rightarrow> alignment \<Rightarrow> bbox \<Rightarrow> raw_span \<Rightarrow> span option" where
  "make_span U line_alignment line_bbox rs =
     (let text = py_strip (rs_text rs)
      in if text \<noteq> [] then
           (let flags = rs_flags rs;
                sz = rs_size rs;
                font = (case rs_font rs of None \<Rightarrow> [] | Some f \<Rightarrow> f);
                is_bold = (flags AND 2 ^ 4 \<noteq> 0);
                is_italic = (flags AND 2 ^ 1 \<noteq> 0);
                heading_level = calculate_heading_level sz is_bold font;
                is_list = is_list_item U text;
                list_type = (if is_list then get_list_type U text else None)
            in Some \<lparr>sp_text = text, sp_bold = is_bold, sp_italic = is_italic, sp_size = sz,
                     sp_font = font, sp_heading = heading_level, sp_is_list = is_list,
                     sp_list_type = list_type, sp_alignment = line_alignment, sp_bbox = line_bbox\<rparr>)
         else None)"

definition make_line :: "unicode_classes \<Rightarrow> real \<Rightarrow> bbox \<Rightarrow> raw_line \<Rightarrow> span list" where
  "make_line U page_width block_bb line =
     (let line_bbox = get_bbox (rl_bbox line);
          line_alignment = detect_text_alignment (Some line_bbox) page_width (Some block_bb)
      in List.map_filter (make_span U line_alignment line_bbox) (rl_spans line))"

definition is_table_block :: "(grid \<times> bbox) list \<Rightarrow> bbox \<Rightarrow> bool" where
  "is_table_block tables block_bb = list_ex (\<lambda>table. bbox_overlap block_bb (snd table)) tables"

text \<open>One round of the loop over the raw blocks of a page: the text blocks it appends.\<close>

definition make_block :: "unicode_classes \<Rightarrow> real \<Rightarrow> (grid \<times> bbox) list \<Rightarrow> raw_block \<Rightarrow> block list" where
  "make_block U page_width tables blk =
     (case rb_lines blk of
        None \<Rightarrow> []
      | Some lines \<Rightarrow>
          (let block_bb = get_bbox (rb_bbox blk)
           in if is_table_block tables block_bb then []
              else (let block_content = filter (\<lambda>line_content. line_content \<noteq> [])
                                          (map (make_line U page_width block_bb) lines);
                        block_y_positions = map (\<lambda>line. fst (snd (get_bbox (rl_bbox line)))) lines
                    in if block_content \<noteq> []
                       then [TextBlock block_content (detect_block_type block_content block_y_positions) block_bb]
                       else [])))"

definition text_blocks :: "unicode_classes \<Rightarrow> real \<Rightarrow> (grid \<times> bbox) list \<Rightarrow> raw_block list \<Rightarrow> block list" where
  "text_blocks U page_width tables blocks = concat (map (make_block U page_width tables) blocks)"

definition table_blocks :: "(grid \<times> bbox) list \<Rightarrow> block list" where
  "table_blocks tables = map (\<lambda>table. TableBlock (fst table) (snd table)) tables"

text \<open>One round of the loop over the pages: what the page appends to \<open>all_blocks\<close>.\<close>

definition page_blocks :: "string \<Rightarrow> unicode_classes \<Rightarrow> page \<Rightarrow> block list" where
  "page_blocks layout_mode U pg =
     (let tables = detect_tables layout_mode pg
      in text_blocks U (pg_width pg) tables (pg_blocks pg) @ table_blocks tables)"

definition extract_with_formatting :: "string \<Rightarrow> unicode_classes \<Rightarrow> page list \<Rightarrow> block list" where
  "extract_with_formatting layout_mode U doc = concat (map (page_blocks layout_mode U) doc)"

text \<open>Table detection raises on a page: \<open>find_tables\<close> raises, or the extraction of a table does.\<close>

definition detection_raises :: "page \<Rightarrow> bool" where
  "detection_raises pg =
     (case pg_find_tables pg of Inl e \<Rightarrow> True | Inr page_tables \<Rightarrow> list_ex (\<lambda>t. isl (ft_extract t)) page_tables)"

text \<open>It raises before any table has been appended: \<open>find_tables\<close> raises, or the first extraction does.\<close>

definition raises_before_first_table :: "page \<Rightarrow> bool" where
  "raises_before_first_table pg =
     (case pg_find_tables pg of
        Inl e \<Rightarrow> True
      | Inr page_tables \<Rightarrow> (case page_tables of [] \<Rightarrow> False | t # _ \<Rightarrow> isl (ft_extract t)))"

text \<open>A table block occurs in a block stream.\<close>

definition has_table_block :: "block list \<Rightarrow> bool" where
  "has_table_block bs = list_ex (\<lambda>b. \<not> is_text_block b) bs"

subsection \<open>A page for evaluating the assembler\<close>

text \<open>
  A page with a title block above a table and a text block that lies inside the table;
  the same page when the extraction of a second table raises, and when \<open>find_tables\<close> raises.
\<close>

definition ex_grid :: grid where
  "ex_grid = [[Some (str_of ''Name''), Some (str_of ''Age'')], [Some (str_of ''Ann''), Some (str_of ''30'')]]"

definition ex_table :: found_table where
  "ex_table = \<lparr>ft_extract = Inr ex_grid, ft_bbox = (0, 100, 200, 200)\<rparr>"

definition ex_broken_table :: found_table where
  "ex_broken_table = \<lparr>ft_extract = Inl Raised, ft_bbox = (0, 300, 200, 400)\<rparr>"

definition ex_title_block :: raw_block where
  "ex_title_block =
     \<lparr>rb_lines = Some [\<lparr>rl_bbox = Some (0, 0, 200, 20),
                         rl_spans = [\<lparr>rs_text = str_of ''Title'', rs_flags = 16, rs_size = 22,
                                      rs_font = Some (str_of ''Helvetica'')\<rparr>]\<rparr>],
      rb_bbox = Some (0, 0, 200, 50)\<rparr>"

definition ex_cell_block :: raw_block where
  "ex_cell_block =
     \<lparr>rb_lines = Some [\<lparr>rl_bbox = Some (10, 110, 40, 130),
                         rl_spans = [\<lparr>rs_text = str_of ''Ann'', rs_flags = 0, rs_size = 11,
                                      rs_font = Some (str_of ''Helvetica'')\<rparr>]\<rparr>],
      rb_bbox = Some (10, 110, 100, 130)\<rparr>"

definition ex_page :: page where
  "ex_page = \<lparr>pg_width = 200, pg_blocks = [ex_title_block, ex_cell_block],
              pg_find_tables = Inr [ex_table]\<rparr>"

definition ex_page_late_failure :: page where
  "ex_page_late_failure = ex_page\<lparr>pg_find_tables := Inr [ex_table, ex_broken_table]\<rparr>"

definition ex_page_early_failure :: page where
  "ex_page_early_failure = ex_page\<lparr>pg_find_tables := Inl Raised\<rparr>"

definition ex_title_span :: span where
  "ex_title_span =
     \<lparr>sp_text = str_of ''Title'', sp_bold = True, sp_italic = False, sp_size = 22,
      sp_font = str_of ''Helvetica'', sp_heading = 1, sp_is_list = False, sp_list_type = None,
      sp_alignment = AlignCenter, sp_bbox = (0, 0, 200, 20)\<rparr>"

definition ex_cell_span :: span where
  "ex_cell_span =
     \<lparr>sp_text = str_of ''Ann'', sp_bold = False, sp_italic = False, sp_size = 11,
      sp_font = str_of ''Helvetica'', sp_heading = 0, sp_is_list = False, sp_list_type = None,
      sp_alignment = AlignLeft, sp_bbox = (10, 110, 40, 130)\<rparr>"

section \<open>Format Renderers\<close>

subsection \<open>Marker stripping\<close>

text \<open>
  The three list renderers strip the marker with the same lines:
  the loop over \<open>bullet_patterns\<close> that cuts the first glyph the text starts with and
  trims the rest, and then \<open>re.sub(r'^[\d\w]+[\.\)]\s*', '', text_content)\<close>.
\<close>

definition remove_bullet :: "pystr \<Rightarrow> pystr" where
  "remove_bullet text_content =
     (case find (\<lambda>bullet. startswith text_content bullet) bullet_patterns of
        None \<Rightarrow> text_content
      | Some bullet \<Rightarrow> py_strip (drop (length bullet) text_content))"

definition digit_or_word :: "unicode_classes \<Rightarrow> nat \<Rightarrow> bool" where
  "digit_or_word U c = (re_digit U c \<or> re_word U c)"

definition marker_rx :: "unicode_classes \<Rightarrow> rx list" where
  "marker_rx U = [Plus (digit_or_word U), Once dot_or_paren, Star is_space]"

definition strip_list_marker :: "unicode_classes \<Rightarrow> pystr \<Rightarrow> pystr" where
  "strip_list_marker U text = re_sub_prefix (marker_rx U) (remove_bullet text)"

subsection \<open>HTML: lists\<close>

text \<open>
  \<open>PDFFormatter._block_to_html_list(block_content)\<close>. The loop carries \<open>html_lines\<close>,
  \<open>current_list_type\<close> and \<open>list_open\<close>.
\<close>

record html_list_state =
  html_lines :: "pystr list"
  current_list_type :: "list_type option"
  list_open :: bool

definition close_tag :: "list_type option \<Rightarrow> pystr" where
  "close_tag t = (if t = Some Bullet then str_of ''</ul>'' else str_of ''</ol>'')"

definition open_tag :: "list_type option \<Rightarrow> pystr" where
  "open_tag t = (if t = Some Bullet then str_of ''<ul>'' else str_of ''<ol>'')"

definition html_list_line :: "unicode_classes \<Rightarrow> html_list_state \<Rightarrow> span list \<Rightarrow> html_list_state" where
  "html_list_line U st line =
     (case line of
        [] \<Rightarrow> st
      | first_span # others \<Rightarrow>
          if sp_is_list first_span then
            (let list_type = sp_list_type first_span;
                 st1 = (if \<not> list_open st \<or> list_type \<noteq> current_list_type st
                        then \<lparr>html_lines = html_lines st
                                  @ (if list_open st then [close_tag (current_list_type st)] else [])
                                  @ [open_tag list_type],
                               current_list_type = list_type, list_open = True\<rparr>
                        else st);
                 text_content = strip_list_marker U (sp_text first_span);
                 text_content = foldl (\<lambda>t s. t @ [32] @ sp_text s) text_content others
             in st1\<lparr>html_lines := html_lines st1
                      @ [str_of ''<li>'' @ py_strip text_content @ str_of ''</li>'']\<rparr>)
          else
            (let text_content = py_join [32] (map sp_text line)
             in if py_strip text_content \<noteq> []
                then st\<lparr>html_lines := html_lines st @ [str_of ''<p>'' @ text_content @ str_of ''</p>'']\<rparr>
                else st))"

definition block_to_html_list :: "unicode_classes \<Rightarrow> span list list \<Rightarrow> pystr list" where
  "block_to_html_list U block_content =
     (let st = foldl (html_list_line U)
                 \<lparr>html_lines = [], current_list_type = None, list_open = False\<rparr> block_content
      in html_lines st @ (if list_open st then [close_tag (current_list_type st)] else []))"

subsection \<open>Lightweight markup: lists and headings\<close>

text \<open>The emphasis markers of the markdown renderers.\<close>

definition md_emph :: "span \<Rightarrow> pystr" where
  "md_emph s =
     (if sp_bold s \<and> sp_italic s then str_of ''***'' @ sp_text s @ str_of ''***''
      else if sp_bold s then str_of ''**'' @ sp_text s @ str_of ''**''
      else if sp_italic s then str_of ''*'' @ sp_text s @ str_of ''*''
      else sp_text s)"

text \<open>\<open>PDFFormatter._block_to_markdown_list(block_content)\<close>: one round of the loop.\<close>

definition markdown_list_line :: "unicode_classes \<Rightarrow> span list \<Rightarrow> pystr list" where
  "markdown_list_line U line =
     (case line of
        [] \<Rightarrow> []
      | first_span # others \<Rightarrow>
          if sp_is_list first_span then
            (let list_type = sp_list_type first_span;
                 text_content = strip_list_marker U (sp_text first_span);
                 text_content = foldl (\<lambda>t s. t @ [32] @ md_emph s) text_content others
             in if list_type = Some Numbered
                then [str_of ''1. '' @ py_strip text_content]
                else [str_of ''- '' @ py_strip text_content])
          else
            (let line_text = foldl (\<lambda>t s. t @ md_emph s @ [32]) [] line
             in if py_strip line_text \<noteq> [] then [py_strip line_text] else []))"

definition block_to_markdown_list :: "unicode_classes \<Rightarrow> span list list \<Rightarrow> pystr list" where
  "block_to_markdown_list U block_content = concat (map (markdown_list_line U) block_content)"

text \<open>\<open>PDFFormatter._block_to_markdown_heading(block_content)\<close>.\<close>

definition div_open :: "string \<Rightarrow> pystr" where
  "div_open a = [10] @ str_of ''<div align='' @ [34] @ str_of a @ [34] @ str_of ''>''"

definition block_to_markdown_heading :: "span list list \<Rightarrow> pystr list" where
  "block_to_markdown_heading block_content =
     (case block_content of
        [] \<Rightarrow> []
      | [] # _ \<Rightarrow> []
      | (first_span # _) # _ \<Rightarrow>
          (let heading_level = sp_heading first_span;
               alignment = sp_alignment first_span;
               text_content = py_join [32] (map (\<lambda>line. py_join [32] (map sp_text line)) block_content);
               heading_text = replicate (nat heading_level) 35 @ [32] @ text_content
           in if alignment = AlignCenter
              then [heading_text @ div_open ''center'' @ text_content @ str_of ''</div>'']
              else if alignment = AlignRight
              then [heading_text @ div_open ''right'' @ text_content @ str_of ''</div>'']
              else [heading_text]))"

subsection \<open>Structured document: lists\<close>

text \<open>
  The calls on the document writer. A paragraph is added with its style, left indent (in
  inches) and alignment, where the source sets them, and its runs; a run has its text, the
  bold and italic flags, and, where the source sets a font size, the number it passes to
  \<open>Pt(...)\<close>. What the document writer stores of that number is its own business.
\<close>

record docx_run =
  run_text :: pystr
  run_bold :: bool
  run_italic :: bool
  run_size :: "real option"

record docx_paragraph =
  par_style :: "string option"
  par_left_indent :: "real option"
  par_alignment :: "alignment option"
  par_runs :: "docx_run list"

text \<open>\<open>PDFFormatter._add_paragraph_to_docx(document, block_content)\<close>: the paragraph it adds.\<close>

definition add_paragraph_to_docx :: "span list list \<Rightarrow> docx_paragraph list" where
  "add_paragraph_to_docx block_content =
     (case block_content of
        [] \<Rightarrow> []
      | first_line # _ \<Rightarrow>
          (let alignment = (case first_line of [] \<Rightarrow> AlignLeft | s # _ \<Rightarrow> sp_alignment s)
           in [\<lparr>par_style = None, par_left_indent = None, par_alignment = Some alignment,
                par_runs = map (\<lambda>s. \<lparr>run_text = sp_text s @ [32], run_bold = sp_bold s,
                                       run_italic = sp_italic s,
                                       run_size = Some (if sp_size s > 8 then sp_size s else 11)\<rparr>)
                             (concat block_content)\<rparr>]))"

text \<open>\<open>PDFFormatter._add_list_to_docx(document, block_content)\<close>: one round of the loop.\<close>

definition docx_list_line :: "unicode_classes \<Rightarrow> span list \<Rightarrow> docx_paragraph list" where
  "docx_list_line U line =
     (case line of
        [] \<Rightarrow> []
      | first_span # others \<Rightarrow>
          if sp_is_list first_span then
            (let text_content = strip_list_marker U (sp_text first_span)
             in [\<lparr>par_style = Some ''List Bullet'', par_left_indent = Some 0.25, par_alignment = None,
                  par_runs = \<lparr>run_text = text_content, run_bold = sp_bold first_span,
                               run_italic = sp_italic first_span, run_size = None\<rparr>
                             # map (\<lambda>s. \<lparr>run_text = [32] @ sp_text s, run_bold = sp_bold s,
                                           run_italic = sp_italic s, run_size = Some (sp_size s)\<rparr>) others\<rparr>])
          else add_paragraph_to_docx [line])"

definition add_list_to_docx :: "unicode_classes \<Rightarrow> span list list \<Rightarrow> docx_paragraph list" where
  "add_list_to_docx U block_content = concat (map (docx_list_line U) block_content)"

subsection \<open>Tables\<close>

text \<open>\<open>cell or ""\<close>: \<open>None\<close> and the empty string both give the empty string.\<close>

definition cell_or_empty :: "pystr option \<Rightarrow> pystr" where
  "cell_or_empty cell = (case cell of None \<Rightarrow> [] | Some s \<Rightarrow> s)"

text \<open>\<open>cell and isinstance(cell, str) and cell.strip()\<close> as a truth value.\<close>

definition cell_has_text :: "pystr option \<Rightarrow> bool" where
  "cell_has_text cell = (case cell of None \<Rightarrow> False | Some s \<Rightarrow> s \<noteq> [] \<and> py_strip s \<noteq> [])"

definition has_headers :: "pystr option list \<Rightarrow> bool" where
  "has_headers first_row = (length first_row > 0 \<and> list_ex cell_has_text first_row)"

definition th_line :: "pystr option \<Rightarrow> pystr" where
  "th_line cell = str_of ''<th>'' @ cell_or_empty cell @ str_of ''</th>''"

definition td_line :: "pystr option \<Rightarrow> pystr" where
  "td_line cell = str_of ''<td>'' @ cell_or_empty cell @ str_of ''</td>''"

definition html_data_row :: "pystr option list \<Rightarrow> pystr list" where
  "html_data_row row = [str_of ''<tr>''] @ map td_line row @ [str_of ''</tr>'']"

text \<open>\<open>PDFFormatter._table_to_html(table_data)\<close>: the list \<open>html\<close>, and the joined result.\<close>

definition table_html_lines :: "grid \<Rightarrow> pystr list" where
  "table_html_lines table_data =
     (case table_data of
        [] \<Rightarrow> []
      | first_row # rest \<Rightarrow>
          [str_of ''<table>'']
          @ (if has_headers first_row
             then [str_of ''<thead><tr>''] @ map th_line first_row @ [str_of ''</tr></thead>'']
             else [])
          @ [str_of ''<tbody>'']
          @ concat (map html_data_row (if has_headers first_row then rest else table_data))
          @ [str_of ''</tbody>'', str_of ''</table>''])"

definition table_to_html :: "grid \<Rightarrow> pystr" where
  "table_to_html table_data = (if table_data = [] then [] else py_join [10] (table_html_lines table_data))"

text \<open>\<open>PDFFormatter._table_to_markdown(table_data)\<close>.\<close>

definition markdown_row :: "pystr option list \<Rightarrow> pystr" where
  "markdown_row row = str_of ''| '' @ py_join (str_of '' | '') (map cell_or_empty row) @ str_of '' |''"

definition markdown_separator :: "pystr option list \<Rightarrow> pystr" where
  "markdown_separator first_row = str_of ''|'' @ concat (replicate (length first_row) (str_of ''---|''))"

definition table_markdown_lines :: "grid \<Rightarrow> pystr list" where
  "table_markdown_lines table_data =
     (case table_data of
        [] \<Rightarrow> []
      | first_row # rest \<Rightarrow> markdown_row first_row # markdown_separator first_row # map markdown_row rest)"

definition table_to_markdown :: "grid \<Rightarrow> pystr" where
  "table_to_markdown table_data = (if table_data = [] then [] else py_join [10] (table_markdown_lines table_data))"

text \<open>
  \<open>PDFFormatter._add_table_to_docx(document, table_data)\<close>: the table added, with the cells
  set in the order of the loops. A row of the new table has \<open>cols\<close> cells; a cell is set to
  its text and is made bold in row 0.
\<close>

record docx_cell =
  cell_row :: nat
  cell_col :: nat
  cell_text :: pystr
  cell_bold :: bool

record docx_table =
  tbl_rows :: nat
  tbl_cols :: nat
  tbl_style :: string
  tbl_cells :: "docx_cell list"

definition docx_row_cells :: "nat \<Rightarrow> nat \<Rightarrow> pystr option list \<Rightarrow> docx_cell list" where
  "docx_row_cells cols i row_data =
     List.map_filter
       (\<lambda>(j, cell_data). if j < cols
          then Some \<lparr>cell_row = i, cell_col = j, cell_text = cell_or_empty cell_data, cell_bold = (i = 0)\<rparr>
          else None)
       (enumerate 0 row_data)"

definition add_table_to_docx :: "grid \<Rightarrow> docx_table option" where
  "add_table_to_docx table_data =
     (case table_data of
        [] \<Rightarrow> None
      | first_row # _ \<Rightarrow>
          Some \<lparr>tbl_rows = length table_data, tbl_cols = length first_row, tbl_style = ''Table Grid'',
                tbl_cells = concat (map (\<lambda>(i, row_data). docx_row_cells (length first_row) i row_data)
                                      (enumerate 0 table_data))\<rparr>)"

subsection \<open>The list state machine of the HTML renderer\<close>

text \<open>
  The machine \<open>Closed \<rightarrow> Open(type) \<rightarrow> Closed\<close> that \<open>_block_to_html_list\<close> runs over the
  lines of a block, as a trace of events: a list line opens a container of its type when
  none is open or the open type differs, after closing the open one; the container still
  open at the end of the block is closed. On a line that is not a list line the renderer
  emits a paragraph and leaves the state as it is: it does not close the open container
  there, where the machine of the specification does.
\<close>

datatype list_state = Closed | Open "list_type option"

datatype list_event =
  OpenList "list_type option"
| CloseList "list_type option"
| ListItem pystr
| PlainLine pystr

definition close_open :: "list_state \<Rightarrow> list_event list" where
  "close_open st = (case st of Closed \<Rightarrow> [] | Open t \<Rightarrow> [CloseList t])"

definition html_item_text :: "unicode_classes \<Rightarrow> span \<Rightarrow> span list \<Rightarrow> pystr" where
  "html_item_text U first_span others =
     py_strip (foldl (\<lambda>t s. t @ [32] @ sp_text s) (strip_list_marker U (sp_text first_span)) others)"

fun list_machine :: "unicode_classes \<Rightarrow> list_state \<Rightarrow> span list list \<Rightarrow> list_event list" where
  "list_machine U st [] = close_open st"
| "list_machine U st ([] # lines) = list_machine U st lines"
| "list_machine U st ((first_span # others) # lines) =
     (if sp_is_list first_span then
        (if st = Open (sp_list_type first_span)
         then ListItem (html_item_text U first_span others)
              # list_machine U st lines
         else close_open st
              @ [OpenList (sp_list_type first_span), ListItem (html_item_text U first_span others)]
              @ list_machine U (Open (sp_list_type first_span)) lines)
      else (if py_strip (py_join [32] (map sp_text (first_span # others))) \<noteq> []
            then [PlainLine (py_join [32] (map sp_text (first_span # others)))] else [])
           @ list_machine U st lines)"

text \<open>The machine state the loop variables of the HTML renderer stand for.\<close>

definition machine_state :: "html_list_state \<Rightarrow> list_state" where
  "machine_state st = (if list_open st then Open (current_list_type st) else Closed)"

fun render_html_event :: "list_event \<Rightarrow> pystr" where
  "render_html_event (OpenList t) = open_tag t"
| "render_html_event (CloseList t) = close_tag t"
| "render_html_event (ListItem s) = str_of ''<li>'' @ s @ str_of ''</li>''"
| "render_html_event (PlainLine s) = str_of ''<p>'' @ s @ str_of ''</p>''"

text \<open>
  A trace is properly bracketed from a state: a container is opened only when none is
  open, closed only when open and with the type it was opened with, an item lies inside a
  container, and no container is open at the end.
\<close>

fun containers_closed :: "list_state \<Rightarrow> list_event list \<Rightarrow> bool" where
  "containers_closed st [] = (st = Closed)"
| "containers_closed st (OpenList t # es) = (st = Closed \<and> containers_closed (Open t) es)"
| "containers_closed st (CloseList t # es) = (st = Open t \<and> containers_closed Closed es)"
| "containers_closed st (ListItem s # es) = (st \<noteq> Closed \<and> containers_closed st es)"
| "containers_closed st (PlainLine s # es) = containers_closed st es"

text \<open>The types of the containers a trace opens, and the types of the list lines of a block.\<close>

fun opened_types :: "list_event list \<Rightarrow> list_type option list" where
  "opened_types [] = []"
| "opened_types (OpenList t # es) = t # opened_types es"
| "opened_types (e # es) = opened_types es"

fun list_line_types :: "span list list \<Rightarrow> list_type option list" where
  "list_line_types [] = []"
| "list_line_types ([] # lines) = list_line_types lines"
| "list_line_types ((first_span # others) # lines) =
     (if sp_is_list first_span then sp_list_type first_span # list_line_types lines
      else list_line_types lines)"

subsection \<open>Spans for evaluating the renderers\<close>

text \<open>The span the Block Assembler makes of a plain 11pt raw span, given its trimmed text and what the List Detector says.\<close>

definition plain_span :: "pystr \<Rightarrow> bool \<Rightarrow> list_type option \<Rightarrow> span" where
  "plain_span text is_list list_type =
     \<lparr>sp_text = text, sp_bold = False, sp_italic = False, sp_size = 11, sp_font = [],
      sp_heading = 0, sp_is_list = is_list, sp_list_type = list_type,
      sp_alignment = AlignLeft, sp_bbox = zero_bbox\<rparr>"

definition plain_raw_span :: "pystr \<Rightarrow> raw_span" where
  "plain_raw_span text = \<lparr>rs_text = text, rs_flags = 0, rs_size = 11, rs_font = None\<rparr>"

text \<open>A block with a bullet item, a numbered item and a bullet item, and one with three bullet items.\<close>

definition bnb_block :: "span list list" where
  "bnb_block =
     [[plain_span (str_of ''- alpha'') True (Some Bullet)],
      [plain_span (str_of ''1. beta'') True (Some Numbered)],
      [plain_span (str_of ''- gamma'') True (Some Bullet)]]"

definition bbb_block :: "span list list" where
  "bbb_block =
     [[plain_span (str_of ''- alpha'') True (Some Bullet)],
      [plain_span (str_of ''- beta'') True (Some Bullet)],
      [plain_span (str_of ''- gamma'') True (Some Bullet)]]"

definition list_paragraph :: "pystr \<Rightarrow> docx_paragraph" where
  "list_paragraph item =
     \<lparr>par_style = Some ''List Bullet'', par_left_indent = Some 0.25, par_alignment = None,
      par_runs = [\<lparr>run_text = item, run_bold = False, run_italic = False, run_size = None\<rparr>]\<rparr>"

section \<open>Heading level: theorems\<close>

text \<open>
  C1. For every size, bold flag and font the computed heading level is the level of the
  specification's ordered tier test (first match wins). In particular the level is 0 for
  every size of at most 10, whatever the bold flag, and it is 4 for a bold span of size 13,
  where tier 4 wins over tier 6.
\<close>

theorem heading_level_is_tier_test:
  "calculate_heading_level sz bold font = spec_heading_level sz bold
   \<and> (sz \<le> 10 \<longrightarrow> calculate_heading_level sz bold font = 0)
   \<and> (bold \<and> sz = 13 \<longrightarrow> calculate_heading_level sz bold font = 4)"
  by (simp add: calculate_heading_level_def spec_heading_level_def spec_tiers_def)

theorem heading_level_is_tier_test_witness:
  "(9::real) \<le> 10 \<and> calculate_heading_level 9 True (str_of ''Arial'') = 0
   \<and> calculate_heading_level 13 True (str_of ''Arial'') = 4
   \<and> spec_heading_level 13 True = 4
   \<and> calculate_heading_level 13 False (str_of ''Arial'') = 6"
  using heading_level_is_tier_test [of 9 True "str_of ''Arial''"]
        heading_level_is_tier_test [of 13 True "str_of ''Arial''"]
        heading_level_is_tier_test [of 13 False "str_of ''Arial''"]
  by (simp add: spec_heading_level_def spec_tiers_def)

text \<open>
  C10. The font argument has no influence on the heading level: two runs that agree on
  size and bold flag give the same level for any two fonts.
\<close>

theorem heading_level_font_noninterference:
  "calculate_heading_level sz bold font1 = calculate_heading_level sz bold font2"
  by (simp add: calculate_heading_level_def)

section \<open>The regular-expression fragment: lemmas\<close>

text \<open>
  When no character of the repeated class is accepted by the class that follows, the
  greedy repetition never has to give a character back: the match runs to the first
  character outside the class.
\<close>

lemma rmatch_star_then_once:
  assumes disj: "\<And>c. cls c \<Longrightarrow> \<not> lit c"
  shows "rmatch (Star cls # Once lit # r) s =
           (case dropWhile cls s of [] \<Rightarrow> None | d # rest \<Rightarrow> if lit d then rmatch r rest else None)"
proof (induction s)
  case Nil
  show ?case by simp
next
  case (Cons c cs)
  show ?case
  proof (cases "cls c")
    case True
    with disj have "\<not> lit c" by blast
    with True Cons show ?thesis by (simp split: option.splits list.splits)
  next
    case False
    then show ?thesis by simp
  qed
qed

lemma dropWhile_wider_class:
  assumes "\<And>x. p x \<Longrightarrow> q x" and "dropWhile p xs = d # rest" and "\<not> q d"
  shows "dropWhile q xs = d # rest"
  using assms(2)
proof (induction xs)
  case Nil
  then show ?case by simp
next
  case (Cons x xs)
  then show ?case using assms(1,3) by (auto split: if_splits)
qed

section \<open>List Detector: theorems\<close>

lemma roman_not_dot: "roman_mixed c \<Longrightarrow> \<not> is_char 46 c"
  by (auto simp: roman_mixed_def roman_lower_def roman_upper_def is_char_def)

lemma roman_single_case_is_mixed:
  assumes "cls = roman_lower \<or> cls = roman_upper"
    and "re_match [Plus cls, Once (is_char 46), Once is_space] text"
  shows "re_match roman_rx text"
proof -
  have sub: "\<And>x. cls x \<Longrightarrow> roman_mixed x"
    using assms(1) by (auto simp: roman_mixed_def)
  have disj: "\<And>c. cls c \<Longrightarrow> \<not> is_char 46 c"
    using sub roman_not_dot by blast
  from assms(2) obtain c cs where tx: "text = c # cs" and c: "cls c"
    by (cases "text") (auto simp: re_match_def split: if_splits)
  from assms(2) tx c have "rmatch [Star cls, Once (is_char 46), Once is_space] cs \<noteq> None"
    by (simp add: re_match_def)
  then obtain d rest where dw: "dropWhile cls cs = d # rest" and d: "is_char 46 d"
      and r: "rmatch [Once is_space] rest \<noteq> None"
    by (auto simp: rmatch_star_then_once [OF disj] split: list.splits if_splits)
  from d have "\<not> roman_mixed d" using roman_not_dot by blast
  with sub dw have "dropWhile roman_mixed cs = d # rest"
    by (rule dropWhile_wider_class)
  with c d r sub tx show ?thesis
    by (simp add: re_match_def roman_rx_def rmatch_star_then_once [OF roman_not_dot])
qed

lemma roman_letter_no_bullet: "roman_mixed c \<Longrightarrow> \<not> has_bullet_glyph (c # cs)"
  by (auto simp: roman_mixed_def roman_lower_def roman_upper_def bullet_patterns_def
      startswith_def has_bullet_glyph_def)

lemma roman_letter_no_digit: "roman_mixed c \<Longrightarrow> \<not> re_digit U c"
  by (auto simp: roman_mixed_def roman_lower_def roman_upper_def re_digit_def ascii_digit_def)

lemmas list_detector_eval =
  list_detector_def is_list_item_def get_list_type_def has_bullet_marker_def has_bullet_glyph_def
  bullet_patterns_def startswith_def numbered_patterns_def numbered_rx_def lettered_rx_def
  roman_rx_def roman_lower_rx_def roman_upper_rx_def re_match_def re_digit_def ascii_digit_def
  ascii_letter_def ascii_lower_def ascii_upper_def is_char_def dot_or_paren_def roman_lower_def
  roman_upper_def roman_mixed_def is_space_def str_of_def

text \<open>
  C6, as the code has it. \<open>_is_list_item\<close> tests the roman marker with two patterns, one
  for lower-case and one for upper-case letters. A trimmed text that matches one of them
  and does not match the lettered pattern is reported as a list item of type Roman; such
  a text never starts with a bullet glyph or a digit, so the bullet and numbered tests
  cannot claim it.
\<close>

theorem roman_detected_single_case:
  assumes "re_match roman_lower_rx text \<or> re_match roman_upper_rx text"
    and "\<not> re_match lettered_rx text"
  shows "list_detector U text = (True, Some Roman)"
proof -
  from assms(1) have mixed: "re_match roman_rx text"
    using roman_single_case_is_mixed by (auto simp: roman_lower_rx_def roman_upper_rx_def)
  then obtain c cs where tx: "text = c # cs" and c: "roman_mixed c"
    by (cases "text") (auto simp: re_match_def roman_rx_def split: if_splits)
  have item: "is_list_item U text"
    using assms(1) tx by (auto simp: is_list_item_def numbered_patterns_def)
  have nb: "\<not> has_bullet_glyph text"
    using roman_letter_no_bullet [OF c] tx by simp
  have nn: "\<not> re_match (numbered_rx U) text"
    using roman_letter_no_digit [OF c] tx by (simp add: re_match_def numbered_rx_def)
  have "get_list_type U text = Some Roman"
    using tx nb nn assms(2) mixed by (simp add: get_list_type_def)
  with item show ?thesis by (simp add: list_detector_def)
qed

theorem roman_detected_single_case_witness:
  "re_match roman_lower_rx (str_of ''iv. x'') \<and> \<not> re_match lettered_rx (str_of ''iv. x'')
   \<and> list_detector ascii_only (str_of ''iv. x'') = (True, Some Roman)"
proof -
  have h1: "re_match roman_lower_rx (str_of ''iv. x'') \<or> re_match roman_upper_rx (str_of ''iv. x'')"
    by (simp add: list_detector_eval)
  have h2: "\<not> re_match lettered_rx (str_of ''iv. x'')"
    by (simp add: list_detector_eval)
  from roman_detected_single_case [OF h1 h2, of ascii_only] h2 show ?thesis
    by (simp add: list_detector_eval)
qed

text \<open>
  The claim as stated fails on a marker that mixes the cases: \<open>Iv. x\<close> matches the roman
  pattern of the specification and none of the earlier ones, and is not a list item.
\<close>

theorem roman_mixed_case_counterexample:
  "re_match roman_rx (str_of ''Iv. x'')
   \<and> \<not> has_bullet_marker (str_of ''Iv. x'')
   \<and> \<not> re_match (numbered_rx ascii_only) (str_of ''Iv. x'')
   \<and> \<not> re_match lettered_rx (str_of ''Iv. x'')
   \<and> list_detector ascii_only (str_of ''Iv. x'') = (False, None)"
  by (simp add: list_detector_eval)

section \<open>Alignment Detector: theorems\<close>

lemmas double_eval =
  dbl_add_def dbl_sub_def dbl_mul_def round_double_def round_half_even_def pow2_def
  double_exponent_def exponent_up.simps exponent_down.simps Let_def

text \<open>
  Rounding at work: \<open>0.1 + 0.2\<close> is the double above \<open>0.3\<close>, and a result half way between
  two doubles goes to the one with the even significand.
\<close>

lemma double_rounding_examples:
  "dbl_add (round_double (1 / 10)) (round_double (2 / 10)) = 1351079888211149 / 4503599627370496"
  "round_double (3 / 10) = 5404319552844595 / 18014398509481984"
  "dbl_add 1 (1 / 2 ^ 53) = 1"
  "dbl_add (1 + 1 / 2 ^ 52) (1 / 2 ^ 53) = 1 + 1 / 2 ^ 51"
  "dbl_sub 0 0 = 0"
  by (simp_all add: double_eval)

lemma detect_text_alignment_page:
  "detect_text_alignment (Some (x0, y0, x1, y1)) page_width None
     = double_alignment (dbl_sub x0 0) (dbl_sub (dbl_add 0 page_width) x1) page_width"
  by (simp add: detect_text_alignment_def double_alignment_def Let_def)

lemma detect_text_alignment_block:
  "detect_text_alignment (Some (x0, y0, x1, y1)) page_width (Some (b0, b1, b2, b3))
     = double_alignment (dbl_sub x0 b0) (dbl_sub (dbl_add b0 (dbl_sub b2 b0)) x1) (dbl_sub b2 b0)"
  by (simp add: detect_text_alignment_def double_alignment_def Let_def)

lemmas alignment_eval =
  detect_text_alignment_page detect_text_alignment_block double_alignment_def double_eval

text \<open>
  C8, as the code has it. For every line bounding box and container, with the container
  \<open>(cl, cw)\<close> taken from the block bounding box, or the page width with left edge 0 when
  there is none, the detector computes \<open>leftMargin = x0 - cl\<close> and
  \<open>rightMargin = (cl + cw) - x1\<close> and decides in order: Center when the margins differ by
  less than \<open>0.1 * cw\<close>, else Right when the right margin is below \<open>0.05 * cw\<close> and the left
  above \<open>cw * 0.3\<close>, else Left, where every difference, sum and product is the one of
  double arithmetic. A line with both margins 0 in a container of width 200 is centered.
\<close>

theorem alignment_decision:
  assumes "double_container page_width block_bb = (cl, cw)"
  shows "detect_text_alignment (Some (x0, y0, x1, y1)) page_width block_bb
           = double_alignment (dbl_sub x0 cl) (dbl_sub (dbl_add cl cw) x1) cw
         \<and> (\<bar>dbl_sub (dbl_sub x0 cl) (dbl_sub (dbl_add cl cw) x1)\<bar> < dbl_mul (round_double (1 / 10)) cw
              \<longrightarrow> detect_text_alignment (Some (x0, y0, x1, y1)) page_width block_bb = AlignCenter)
         \<and> (\<not> \<bar>dbl_sub (dbl_sub x0 cl) (dbl_sub (dbl_add cl cw) x1)\<bar> < dbl_mul (round_double (1 / 10)) cw
              \<and> dbl_sub (dbl_add cl cw) x1 < dbl_mul (round_double (5 / 100)) cw
              \<and> dbl_sub x0 cl > dbl_mul cw (round_double (3 / 10))
              \<longrightarrow> detect_text_alignment (Some (x0, y0, x1, y1)) page_width block_bb = AlignRight)
         \<and> (\<not> \<bar>dbl_sub (dbl_sub x0 cl) (dbl_sub (dbl_add cl cw) x1)\<bar> < dbl_mul (round_double (1 / 10)) cw
              \<and> \<not> (dbl_sub (dbl_add cl cw) x1 < dbl_mul (round_double (5 / 100)) cw
                    \<and> dbl_sub x0 cl > dbl_mul cw (round_double (3 / 10)))
              \<longrightarrow> detect_text_alignment (Some (x0, y0, x1, y1)) page_width block_bb = AlignLeft)
         \<and> (cw = 200 \<and> dbl_sub x0 cl = 0 \<and> dbl_sub (dbl_add cl cw) x1 = 0
              \<longrightarrow> detect_text_alignment (Some (x0, y0, x1, y1)) page_width block_bb = AlignCenter)
         \<and> double_container page_width None = (0, page_width)"
proof -
  have eq: "detect_text_alignment (Some (x0, y0, x1, y1)) page_width block_bb
           = double_alignment (dbl_sub x0 cl) (dbl_sub (dbl_add cl cw) x1) cw"
  proof (cases block_bb)
    case None
    with assms have "cl = 0" and "cw = page_width"
      by (simp_all add: double_container_def)
    with None show ?thesis
      by (simp add: detect_text_alignment_page)
  next
    case (Some bb)
    obtain b0 b1 b2 b3 where bb: "bb = (b0, b1, b2, b3)"
      by (cases bb) auto
    with Some assms have cl: "cl = b0" and cw: "cw = dbl_sub b2 b0"
      by (auto simp: double_container_def)
    show ?thesis
      unfolding cl cw Some bb by (rule detect_text_alignment_block)
  qed
  have z: "dbl_sub 0 0 = 0"
    by (simp add: dbl_sub_def round_double_def)
  have pos: "0 < dbl_mul (round_double (1 / 10)) 200"
    by (simp add: double_eval)
  have center: "double_alignment 0 0 200 = AlignCenter"
    using z pos by (simp add: double_alignment_def)
  have cont: "double_container page_width None = (0, page_width)"
    by (simp add: double_container_def)
  show ?thesis
    unfolding eq using center cont by (auto simp: double_alignment_def)
qed

theorem alignment_decision_witness:
  "double_container 612 (Some (50, 0, 250, 10)) = (50, 200)
   \<and> dbl_sub 50 50 = 0 \<and> dbl_sub (dbl_add 50 200) 250 = 0
   \<and> detect_text_alignment (Some (50, 0, 250, 10)) 612 (Some (50, 0, 250, 10)) = AlignCenter
   \<and> detect_text_alignment (Some (200, 0, 250, 10)) 612 (Some (50, 0, 250, 10)) = AlignRight
   \<and> detect_text_alignment (Some (50, 0, 100, 10)) 612 (Some (50, 0, 250, 10)) = AlignLeft
   \<and> detect_text_alignment (Some (206, 0, 406, 10)) 612 None = AlignCenter"
proof -
  have c: "double_container 612 (Some (50, 0, 250, 10)) = (50, 200)"
    by (simp add: double_container_def double_eval)
  have n: "double_container 612 None = (0, 612)"
    by (simp add: double_container_def)
  have m: "dbl_sub 50 50 = 0 \<and> dbl_sub (dbl_add 50 200) 250 = 0"
    by (simp add: double_eval)
  have v1: "double_alignment (dbl_sub 50 50) (dbl_sub (dbl_add 50 200) 250) 200 = AlignCenter"
    by (simp add: alignment_eval)
  have v2: "double_alignment (dbl_sub 200 50) (dbl_sub (dbl_add 50 200) 250) 200 = AlignRight"
    by (simp add: alignment_eval)
  have v3: "double_alignment (dbl_sub 50 50) (dbl_sub (dbl_add 50 200) 100) 200 = AlignLeft"
    by (simp add: alignment_eval)
  have v4: "double_alignment (dbl_sub 206 0) (dbl_sub (dbl_add 0 612) 406) 612 = AlignCenter"
    by (simp add: alignment_eval)
  have r1: "detect_text_alignment (Some (50, 0, 250, 10)) 612 (Some (50, 0, 250, 10)) = AlignCenter"
    using alignment_decision [OF c, of 50 0 250 10] v1 by (simp only:)
  have r2: "detect_text_alignment (Some (200, 0, 250, 10)) 612 (Some (50, 0, 250, 10)) = AlignRight"
    using alignment_decision [OF c, of 200 0 250 10] v2 by (simp only:)
  have r3: "detect_text_alignment (Some (50, 0, 100, 10)) 612 (Some (50, 0, 250, 10)) = AlignLeft"
    using alignment_decision [OF c, of 50 0 100 10] v3 by (simp only:)
  have r4: "detect_text_alignment (Some (206, 0, 406, 10)) 612 None = AlignCenter"
    using alignment_decision [OF n, of 206 0 406 10] v4 by (simp only:)
  from c m r1 r2 r3 r4 show ?thesis by (simp only: simp_thms)
qed

text \<open>
  The claim as stated, in the arithmetic of the reals, fails at a threshold. The line
  starts at the double \<open>4.3\<close> on a page of width 43 and ends at the right edge. The
  double \<open>4.3\<close> lies below the real \<open>0.10 * 43\<close>, so the claim's test gives Center; the
  product of the doubles \<open>0.1\<close> and \<open>43\<close> rounds to the double \<open>4.3\<close> itself, so the strict
  comparison of the code fails and the line is Left.
\<close>

theorem alignment_rounding_counterexample:
  "spec_container 43 None = (0, 43)
   \<and> spec_alignment (round_double (43 / 10) - 0) ((0 + 43) - 43) 43 = AlignCenter
   \<and> dbl_mul (round_double (1 / 10)) 43 = round_double (43 / 10)
   \<and> detect_text_alignment (Some (round_double (43 / 10), 0, 43, 10)) 43 None = AlignLeft"
proof -
  have d: "round_double (43 / 10) = 4841369599423283 / 1125899906842624"
    by (simp add: double_eval)
  have a: "spec_alignment (round_double (43 / 10) - 0) ((0 + 43) - 43) 43 = AlignCenter"
    unfolding d by (simp add: spec_alignment_def)
  have b: "dbl_mul (round_double (1 / 10)) 43 = round_double (43 / 10)"
    by (simp add: double_eval)
  have c: "detect_text_alignment (Some (round_double (43 / 10), 0, 43, 10)) 43 None = AlignLeft"
    unfolding d by (simp add: alignment_eval)
  show ?thesis
    using a b c by (simp add: spec_container_def)
qed

section \<open>Block Assembler: theorems\<close>

lemma make_block_text:
  "b \<in> set (make_block U w tables blk) \<Longrightarrow>
     is_text_block b \<and> block_bbox b = get_bbox (rb_bbox blk) \<and> \<not> is_table_block tables (block_bbox b)"
  by (auto simp: make_block_def Let_def split: option.splits if_splits)

lemma make_block_discard:
  "make_block U w tables blk =
     (if is_table_block tables (get_bbox (rb_bbox blk)) then [] else make_block U w [] blk)"
  by (simp add: make_block_def Let_def is_table_block_def split: option.splits)

lemma text_blocks_discard:
  "text_blocks U w tables blocks =
     text_blocks U w [] (filter (\<lambda>blk. \<not> is_table_block tables (get_bbox (rb_bbox blk))) blocks)"
proof (induction blocks)
  case Nil
  show ?case by (simp add: text_blocks_def)
next
  case (Cons blk blocks)
  then show ?case
    using make_block_discard [of U w tables blk] by (simp add: text_blocks_def)
qed

lemma text_blocks_text:
  "b \<in> set (text_blocks U w tables blocks) \<Longrightarrow>
     is_text_block b \<and> \<not> is_table_block tables (block_bbox b)"
  using make_block_text by (fastforce simp: text_blocks_def)

lemma table_blocks_tables:
  "t \<in> set (table_blocks tables) \<Longrightarrow> \<not> is_text_block t \<and> block_bbox t \<in> snd ` set tables"
  by (force simp: table_blocks_def)

text \<open>
  C2. In the blocks assembled for a page no text block overlaps a table block of the page,
  nor any table that detection collected: a raw block whose bounding box overlaps a
  collected table contributes nothing, so the page's blocks are the text blocks of the
  raw blocks that overlap no table, assembled as without tables, followed by the tables.
\<close>

theorem no_text_block_overlaps_table:
  "(\<forall>b \<in> set (page_blocks L U pg). \<forall>t \<in> set (page_blocks L U pg).
       is_text_block b \<and> \<not> is_text_block t \<longrightarrow> \<not> bbox_overlap (block_bbox b) (block_bbox t))
   \<and> (\<forall>b \<in> set (page_blocks L U pg). \<forall>table \<in> set (detect_tables L pg).
       is_text_block b \<longrightarrow> \<not> bbox_overlap (block_bbox b) (snd table))
   \<and> page_blocks L U pg =
       text_blocks U (pg_width pg) []
         (filter (\<lambda>blk. \<not> is_table_block (detect_tables L pg) (get_bbox (rb_bbox blk))) (pg_blocks pg))
       @ table_blocks (detect_tables L pg)"
proof -
  let ?tables = "detect_tables L pg"
  have parts: "page_blocks L U pg = text_blocks U (pg_width pg) ?tables (pg_blocks pg) @ table_blocks ?tables"
    by (simp add: page_blocks_def Let_def)
  have tb: "\<And>b. b \<in> set (page_blocks L U pg) \<Longrightarrow> is_text_block b \<Longrightarrow>
                 \<not> is_table_block ?tables (block_bbox b)"
    unfolding parts using text_blocks_text table_blocks_tables by fastforce
  have tab: "\<And>t. t \<in> set (page_blocks L U pg) \<Longrightarrow> \<not> is_text_block t \<Longrightarrow>
                 block_bbox t \<in> snd ` set ?tables"
    unfolding parts using text_blocks_text table_blocks_tables by fastforce
  have a: "\<forall>b \<in> set (page_blocks L U pg). \<forall>table \<in> set ?tables.
       is_text_block b \<longrightarrow> \<not> bbox_overlap (block_bbox b) (snd table)"
    using tb by (auto simp: is_table_block_def list_ex_iff)
  have b: "\<forall>b \<in> set (page_blocks L U pg). \<forall>t \<in> set (page_blocks L U pg).
       is_text_block b \<and> \<not> is_text_block t \<longrightarrow> \<not> bbox_overlap (block_bbox b) (block_bbox t)"
    using a tab by fastforce
  have c: "page_blocks L U pg =
       text_blocks U (pg_width pg) []
         (filter (\<lambda>blk. \<not> is_table_block ?tables (get_bbox (rb_bbox blk))) (pg_blocks pg))
       @ table_blocks ?tables"
    unfolding parts using text_blocks_discard [of U "pg_width pg" ?tables "pg_blocks pg"] by simp
  from a b c show ?thesis by blast
qed

lemma detect_tables_early_raise:
  "raises_before_first_table pg \<Longrightarrow> detect_tables L pg = []"
  by (auto simp: raises_before_first_table_def detect_tables_def isl_def split: sum.splits list.splits)

lemma detect_tables_none_found: "detect_tables L (pg\<lparr>pg_find_tables := Inr []\<rparr>) = []"
  by (simp add: detect_tables_def)

lemma text_blocks_no_table: "\<not> has_table_block (text_blocks U w tables blocks)"
  using text_blocks_text by (auto simp: has_table_block_def list_ex_iff)

text \<open>
  C9, as the code has it. When table detection raises before any table has been appended
  (\<open>find_tables\<close> raises, or the extraction of the first table does), the page is assembled
  exactly as a page with zero tables: all its text blocks and no table block. The
  assembler returns a block stream in every case, so no error reaches the caller, and the
  blocks of a page stand between those of the pages before and after it.
\<close>

theorem early_detection_failure_is_table_free:
  "(raises_before_first_table pg \<longrightarrow>
      page_blocks L U pg = page_blocks L U (pg\<lparr>pg_find_tables := Inr []\<rparr>)
      \<and> page_blocks L U pg = text_blocks U (pg_width pg) [] (pg_blocks pg)
      \<and> \<not> has_table_block (page_blocks L U pg))
   \<and> extract_with_formatting L U (before @ pg # after) =
       extract_with_formatting L U before @ page_blocks L U pg @ extract_with_formatting L U after"
  using detect_tables_early_raise [of pg L] detect_tables_none_found [of L pg]
    text_blocks_no_table [of U "pg_width pg" "[]" "pg_blocks pg"]
  by (simp add: page_blocks_def table_blocks_def extract_with_formatting_def)


lemmas assembler_eval =
  page_blocks_def detect_tables_def text_blocks_def table_blocks_def make_block_def make_line_def
  make_span_def is_table_block_def get_bbox_def detect_block_type_def
  calculate_heading_level_def py_strip_def List.map_filter_def alignment_eval

lemmas example_page_defs =
  ex_page_def ex_page_late_failure_def ex_page_early_failure_def ex_table_def ex_broken_table_def
  ex_title_block_def ex_cell_block_def ex_title_span_def ex_cell_span_def

lemma ex_page_blocks:
  "page_blocks ''preserve'' ascii_only ex_page =
     [TextBlock [[ex_title_span]] Heading (0, 0, 200, 50), TableBlock ex_grid (0, 100, 200, 200)]"
  by (simp add: assembler_eval example_page_defs list_detector_eval)

lemma ex_page_late_failure_blocks:
  "page_blocks ''preserve'' ascii_only ex_page_late_failure =
     [TextBlock [[ex_title_span]] Heading (0, 0, 200, 50), TableBlock ex_grid (0, 100, 200, 200)]"
  by (simp add: assembler_eval example_page_defs list_detector_eval)

lemma ex_page_no_tables_blocks:
  "page_blocks ''preserve'' ascii_only (ex_page_late_failure\<lparr>pg_find_tables := Inr []\<rparr>) =
     [TextBlock [[ex_title_span]] Heading (0, 0, 200, 50),
      TextBlock [[ex_cell_span]] Paragraph (10, 110, 100, 130)]"
  by (simp add: assembler_eval example_page_defs list_detector_eval)

lemma ex_page_early_failure_blocks:
  "page_blocks ''preserve'' ascii_only ex_page_early_failure =
     [TextBlock [[ex_title_span]] Heading (0, 0, 200, 50),
      TextBlock [[ex_cell_span]] Paragraph (10, 110, 100, 130)]"
  by (simp add: assembler_eval example_page_defs list_detector_eval)

theorem no_text_block_overlaps_table_witness:
  "page_blocks ''preserve'' ascii_only ex_page =
     [TextBlock [[ex_title_span]] Heading (0, 0, 200, 50), TableBlock ex_grid (0, 100, 200, 200)]
   \<and> \<not> bbox_overlap (0, 0, 200, 50) (0, 100, 200, 200)
   \<and> bbox_overlap (10, 110, 100, 130) (0, 100, 200, 200)
   \<and> text_blocks ascii_only 200 [] [ex_title_block] = [TextBlock [[ex_title_span]] Heading (0, 0, 200, 50)]"
  using no_text_block_overlaps_table [of "''preserve''" ascii_only ex_page]
  by (simp add: ex_page_blocks) (simp add: assembler_eval example_page_defs list_detector_eval)

text \<open>
  The claim as stated fails when the extraction of a later table raises: the table
  collected before the failure stays, the text block inside it is discarded and the table
  is emitted, unlike on the same page with zero tables.
\<close>

theorem late_detection_failure_counterexample:
  "detection_raises ex_page_late_failure
   \<and> page_blocks ''preserve'' ascii_only ex_page_late_failure
       \<noteq> page_blocks ''preserve'' ascii_only (ex_page_late_failure\<lparr>pg_find_tables := Inr []\<rparr>)
   \<and> has_table_block (page_blocks ''preserve'' ascii_only ex_page_late_failure)
   \<and> page_blocks ''preserve'' ascii_only ex_page_late_failure
       = [TextBlock [[ex_title_span]] Heading (0, 0, 200, 50), TableBlock ex_grid (0, 100, 200, 200)]"
  by (simp add: ex_page_late_failure_blocks ex_page_no_tables_blocks has_table_block_def)
     (simp add: detection_raises_def example_page_defs)

theorem early_detection_failure_is_table_free_witness:
  "raises_before_first_table ex_page_early_failure
   \<and> page_blocks ''preserve'' ascii_only ex_page_early_failure =
       [TextBlock [[ex_title_span]] Heading (0, 0, 200, 50),
        TextBlock [[ex_cell_span]] Paragraph (10, 110, 100, 130)]
   \<and> extract_with_formatting ''preserve'' ascii_only [ex_page, ex_page_early_failure, ex_page] =
       page_blocks ''preserve'' ascii_only ex_page
       @ page_blocks ''preserve'' ascii_only ex_page_early_failure
       @ page_blocks ''preserve'' ascii_only ex_page"
proof -
  have r: "raises_before_first_table ex_page_early_failure"
    by (simp add: raises_before_first_table_def example_page_defs)
  from early_detection_failure_is_table_free [of ex_page_early_failure "''preserve''" ascii_only "[ex_page]" "[ex_page]"] r
  show ?thesis
    by (simp add: ex_page_early_failure_blocks extract_with_formatting_def)
qed

section \<open>Format Renderers: lists\<close>

lemma py_strip_leading_space: "py_strip (32 # rest) = py_strip rest"
  by (simp add: py_strip_def is_space_def)

lemma find_bullet:
  "bullet \<in> set bullet_patterns \<Longrightarrow>
     find (\<lambda>b. startswith (bullet @ rest) b) bullet_patterns = Some bullet"
  by (auto simp: bullet_patterns_def startswith_def)

lemma remove_bullet_glyph:
  "bullet \<in> set bullet_patterns \<Longrightarrow> remove_bullet (bullet @ 32 # rest) = py_strip rest"
  using find_bullet [of bullet "32 # rest"]
  by (simp add: remove_bullet_def py_strip_leading_space)

text \<open>
  What marker stripping computes on a bullet item: the glyph is cut and the rest trimmed,
  and the numeric/alpha marker pattern is then applied to what is left.
\<close>

lemma strip_list_marker_after_bullet:
  assumes "bullet \<in> set bullet_patterns"
  shows "strip_list_marker U (bullet @ 32 # rest) = re_sub_prefix (marker_rx U) (py_strip rest)"
  using remove_bullet_glyph [OF assms] by (simp add: strip_list_marker_def)

lemmas renderer_eval =
  block_to_html_list_def html_list_line_def block_to_markdown_list_def markdown_list_line_def
  add_list_to_docx_def docx_list_line_def strip_list_marker_def remove_bullet_def marker_rx_def
  re_sub_prefix_def digit_or_word_def re_word_def open_tag_def close_tag_def plain_span_def
  make_span_def plain_raw_span_def calculate_heading_level_def py_strip_def Let_def

text \<open>
  C4. The code loses text of the item. The span \<open>- e.g. foo\<close> is a bullet item; after the
  glyph is cut, the numeric/alpha pattern matches \<open>e.\<close> and removes it too, so all three
  renderers emit \<open>g. foo\<close> where the text after the marker is \<open>e.g. foo\<close>.
\<close>

theorem bullet_item_text_lost:
  "has_bullet_marker (str_of ''- e.g. foo'')
   \<and> make_span ascii_only AlignLeft zero_bbox (plain_raw_span (str_of ''- e.g. foo''))
       = Some (plain_span (str_of ''- e.g. foo'') True (Some Bullet))
   \<and> strip_list_marker ascii_only (str_of ''- e.g. foo'') = str_of ''g. foo''
   \<and> block_to_html_list ascii_only [[plain_span (str_of ''- e.g. foo'') True (Some Bullet)]]
       = [str_of ''<ul>'', str_of ''<li>g. foo</li>'', str_of ''</ul>'']
   \<and> block_to_markdown_list ascii_only [[plain_span (str_of ''- e.g. foo'') True (Some Bullet)]]
       = [str_of ''- g. foo'']
   \<and> add_list_to_docx ascii_only [[plain_span (str_of ''- e.g. foo'') True (Some Bullet)]]
       = [list_paragraph (str_of ''g. foo'')]"
  by (simp add: renderer_eval list_detector_eval list_paragraph_def)

lemma html_list_line_empty: "html_list_line U st [] = st"
  by (simp add: html_list_line_def)

lemma html_list_line_item:
  assumes "sp_is_list f"
  shows "list_open (html_list_line U st (f # others))"
    and "current_list_type (html_list_line U st (f # others)) = sp_list_type f"
    and "html_lines (html_list_line U st (f # others)) =
           html_lines st
           @ (if list_open st \<and> current_list_type st = sp_list_type f then []
              else (if list_open st then [close_tag (current_list_type st)] else [])
                   @ [open_tag (sp_list_type f)])
           @ [str_of ''<li>'' @ html_item_text U f others @ str_of ''</li>'']"
  using assms by (auto simp: html_list_line_def html_item_text_def Let_def)

lemma html_list_line_plain:
  assumes "\<not> sp_is_list f"
  shows "list_open (html_list_line U st (f # others)) = list_open st"
    and "current_list_type (html_list_line U st (f # others)) = current_list_type st"
    and "html_lines (html_list_line U st (f # others)) =
           html_lines st
           @ (if py_strip (py_join [32] (map sp_text (f # others))) \<noteq> []
              then [str_of ''<p>'' @ py_join [32] (map sp_text (f # others)) @ str_of ''</p>'']
              else [])"
  using assms by (auto simp: html_list_line_def Let_def)

lemma html_list_line_events:
  "html_lines (html_list_line U st line) @ map render_html_event (list_machine U (machine_state (html_list_line U st line)) lines)
     = html_lines st @ map render_html_event (list_machine U (machine_state st) (line # lines))"
proof (cases line)
  case Nil
  then show ?thesis by (simp add: html_list_line_empty)
next
  case ln: (Cons f others)
  show ?thesis
  proof (cases "sp_is_list f")
    case True
    show ?thesis
      unfolding ln
      by (simp add: html_list_line_item [OF True] True machine_state_def close_open_def)
  next
    case False
    show ?thesis
      unfolding ln
      by (simp add: html_list_line_plain [OF False] False machine_state_def)
  qed
qed

lemma html_list_fold:
  "html_lines (foldl (html_list_line U) st lines) @ map render_html_event (close_open (machine_state (foldl (html_list_line U) st lines)))
   = html_lines st @ map render_html_event (list_machine U (machine_state st) lines)"
proof (induction lines arbitrary: st)
  case Nil
  show ?case by simp
next
  case (Cons line lines)
  have "html_lines (foldl (html_list_line U) st (line # lines))
          @ map render_html_event (close_open (machine_state (foldl (html_list_line U) st (line # lines))))
        = html_lines (html_list_line U st line)
          @ map render_html_event (list_machine U (machine_state (html_list_line U st line)) lines)"
    using Cons.IH [of "html_list_line U st line"] by (simp only: foldl_Cons)
  also have "\<dots> = html_lines st @ map render_html_event (list_machine U (machine_state st) (line # lines))"
    by (rule html_list_line_events)
  finally show ?case .
qed

lemma block_to_html_list_events:
  "block_to_html_list U block_content = map render_html_event (list_machine U Closed block_content)"
proof -
  let ?init = "\<lparr>html_lines = [], current_list_type = None, list_open = False\<rparr>"
  let ?st = "foldl (html_list_line U) ?init block_content"
  have "block_to_html_list U block_content = html_lines ?st @ map render_html_event (close_open (machine_state ?st))"
    by (simp add: block_to_html_list_def Let_def machine_state_def close_open_def)
  also have "\<dots> = html_lines ?init @ map render_html_event (list_machine U (machine_state ?init) block_content)"
    by (rule html_list_fold)
  finally show ?thesis by (simp add: machine_state_def)
qed

lemma list_machine_closed: "containers_closed st (list_machine U st lines)"
proof (induction U st lines rule: list_machine.induct)
  case (1 U st)
  show ?case by (cases st) (simp_all add: close_open_def)
next
  case (2 U st lines)
  then show ?case by simp
next
  case (3 U st first_span others lines)
  show ?case
  proof (cases "sp_is_list first_span")
    case False
    with 3 show ?thesis by simp
  next
    case True
    show ?thesis
    proof (cases "st = Open (sp_list_type first_span)")
      case same: True
      with True 3 show ?thesis by simp
    next
      case differs: False
      with True 3 show ?thesis by (cases st) (simp_all add: close_open_def)
    qed
  qed
qed

lemma opened_types_append: "opened_types (xs @ ys) = opened_types xs @ opened_types ys"
  by (induction xs rule: opened_types.induct) simp_all

lemma opened_types_close_open: "opened_types (close_open st) = []"
  by (cases st) (simp_all add: close_open_def)

lemma list_machine_opens:
  "opened_types (list_machine U st lines) =
     (case st of Closed \<Rightarrow> remdups_adj (list_line_types lines)
      | Open t \<Rightarrow> tl (remdups_adj (t # list_line_types lines)))"
proof (induction U st lines rule: list_machine.induct)
  case (1 U st)
  show ?case by (cases st) (simp_all add: close_open_def)
next
  case (2 U st lines)
  then show ?case by (cases st) simp_all
next
  case (3 U st first_span others lines)
  show ?case
  proof (cases "sp_is_list first_span")
    case False
    with 3 show ?thesis by (cases st) (simp_all add: opened_types_append)
  next
    case True
    show ?thesis
    proof (cases "st = Open (sp_list_type first_span)")
      case same: True
      with True 3 show ?thesis by (cases st) simp_all
    next
      case differs: False
      have "remdups_adj (sp_list_type first_span # list_line_types lines) =
              sp_list_type first_span # tl (remdups_adj (sp_list_type first_span # list_line_types lines))"
        by (cases "list_line_types lines") simp_all
      with True differs 3 show ?thesis
        by (cases st) (simp_all add: opened_types_append opened_types_close_open)
    qed
  qed
qed


lemma block_to_markdown_list_append:
  "block_to_markdown_list U (xs @ ys) = block_to_markdown_list U xs @ block_to_markdown_list U ys"
  by (simp add: block_to_markdown_list_def)

lemma add_list_to_docx_append:
  "add_list_to_docx U (xs @ ys) = add_list_to_docx U xs @ add_list_to_docx U ys"
  by (simp add: add_list_to_docx_def)

lemma markdown_list_item:
  "sp_is_list f \<Longrightarrow>
     block_to_markdown_list U [f # others] =
       [(if sp_list_type f = Some Numbered then str_of ''1. '' else str_of ''- '')
        @ py_strip (foldl (\<lambda>t s. t @ [32] @ md_emph s) (strip_list_marker U (sp_text f)) others)]"
  by (simp add: block_to_markdown_list_def markdown_list_line_def Let_def)

lemma markdown_plain_line:
  "\<not> sp_is_list f \<Longrightarrow>
     block_to_markdown_list U [f # others] =
       (if py_strip (foldl (\<lambda>t s. t @ md_emph s @ [32]) [] (f # others)) \<noteq> []
        then [py_strip (foldl (\<lambda>t s. t @ md_emph s @ [32]) [] (f # others))] else [])"
  by (simp add: block_to_markdown_list_def markdown_list_line_def Let_def)

lemma docx_list_item:
  "sp_is_list f \<Longrightarrow>
     add_list_to_docx U [f # others] =
       [\<lparr>par_style = Some ''List Bullet'', par_left_indent = Some (1 / 4), par_alignment = None,
         par_runs = \<lparr>run_text = strip_list_marker U (sp_text f), run_bold = sp_bold f,
                      run_italic = sp_italic f, run_size = None\<rparr>
                    # map (\<lambda>s. \<lparr>run_text = 32 # sp_text s, run_bold = sp_bold s,
                                  run_italic = sp_italic s, run_size = Some (sp_size s)\<rparr>) others\<rparr>]"
  by (simp add: add_list_to_docx_def docx_list_line_def Let_def)

lemma docx_plain_line:
  "\<not> sp_is_list f \<Longrightarrow>
     add_list_to_docx U [f # others] =
       [\<lparr>par_style = None, par_left_indent = None, par_alignment = Some (sp_alignment f),
         par_runs = map (\<lambda>s. \<lparr>run_text = sp_text s @ [32], run_bold = sp_bold s,
                                run_italic = sp_italic s,
                                run_size = Some (if sp_size s > 8 then sp_size s else 11)\<rparr>)
                        (f # others)\<rparr>]"
  by (simp add: add_list_to_docx_def docx_list_line_def add_paragraph_to_docx_def Let_def)

text \<open>
  C3, as the code has it. In the HTML renderer the lines emitted for a list block are
  the rendering of the trace of the renderer's state machine, the trace is properly
  bracketed, and it opens one container for each maximal run of list lines of one type:
  a block with a bullet, a numbered and a bullet item gives three containers, \<open>ul\<close>, \<open>ol\<close>,
  \<open>ul\<close>, each opened and closed. The other two renderers keep no state and emit no
  container: what they emit for a block is what they emit for its lines one by one, and
  a list line gives one prefixed line in lightweight markup (\<open>1.\<close> for a numbered item, a
  hyphen for every other type) and one paragraph of style \<open>List Bullet\<close>, whatever its
  type, in the structured document; an empty line gives nothing and a line that is not a
  list line gives an ordinary line or paragraph.
\<close>

theorem html_list_state_machine:
  "block_to_html_list U block_content = map render_html_event (list_machine U Closed block_content)
   \<and> containers_closed Closed (list_machine U Closed block_content)
   \<and> opened_types (list_machine U Closed block_content) = remdups_adj (list_line_types block_content)
   \<and> block_to_html_list U bnb_block =
       [str_of ''<ul>'', str_of ''<li>alpha</li>'', str_of ''</ul>'',
        str_of ''<ol>'', str_of ''<li>beta</li>'', str_of ''</ol>'',
        str_of ''<ul>'', str_of ''<li>gamma</li>'', str_of ''</ul>'']
   \<and> block_to_markdown_list U (xs @ ys) = block_to_markdown_list U xs @ block_to_markdown_list U ys
   \<and> block_to_markdown_list U [[]] = []
   \<and> (sp_is_list f \<longrightarrow>
        block_to_markdown_list U [f # others] =
          [(if sp_list_type f = Some Numbered then str_of ''1. '' else str_of ''- '')
           @ py_strip (foldl (\<lambda>t s. t @ [32] @ md_emph s) (strip_list_marker U (sp_text f)) others)])
   \<and> (\<not> sp_is_list f \<longrightarrow>
        block_to_markdown_list U [f # others] =
          (if py_strip (foldl (\<lambda>t s. t @ md_emph s @ [32]) [] (f # others)) \<noteq> []
           then [py_strip (foldl (\<lambda>t s. t @ md_emph s @ [32]) [] (f # others))] else []))
   \<and> add_list_to_docx U (xs @ ys) = add_list_to_docx U xs @ add_list_to_docx U ys
   \<and> add_list_to_docx U [[]] = []
   \<and> (sp_is_list f \<longrightarrow>
        add_list_to_docx U [f # others] =
          [\<lparr>par_style = Some ''List Bullet'', par_left_indent = Some (1 / 4), par_alignment = None,
            par_runs = \<lparr>run_text = strip_list_marker U (sp_text f), run_bold = sp_bold f,
                         run_italic = sp_italic f, run_size = None\<rparr>
                       # map (\<lambda>s. \<lparr>run_text = 32 # sp_text s, run_bold = sp_bold s,
                                     run_italic = sp_italic s, run_size = Some (sp_size s)\<rparr>) others\<rparr>])
   \<and> (\<not> sp_is_list f \<longrightarrow>
        add_list_to_docx U [f # others] =
          [\<lparr>par_style = None, par_left_indent = None, par_alignment = Some (sp_alignment f),
            par_runs = map (\<lambda>s. \<lparr>run_text = sp_text s @ [32], run_bold = sp_bold s,
                                   run_italic = sp_italic s,
                                   run_size = Some (if sp_size s > 8 then sp_size s else 11)\<rparr>)
                           (f # others)\<rparr>])"
proof -
  have h1: "block_to_html_list U block_content = map render_html_event (list_machine U Closed block_content)"
    by (rule block_to_html_list_events)
  have h2: "containers_closed Closed (list_machine U Closed block_content)"
    by (rule list_machine_closed)
  have h3: "opened_types (list_machine U Closed block_content) = remdups_adj (list_line_types block_content)"
    using list_machine_opens [of U Closed block_content] by simp
  have h4: "block_to_html_list U bnb_block =
       [str_of ''<ul>'', str_of ''<li>alpha</li>'', str_of ''</ul>'',
        str_of ''<ol>'', str_of ''<li>beta</li>'', str_of ''</ol>'',
        str_of ''<ul>'', str_of ''<li>gamma</li>'', str_of ''</ul>'']"
    by (simp add: bnb_block_def renderer_eval list_detector_eval)
  have m0: "block_to_markdown_list U [[]] = []"
    by (simp add: block_to_markdown_list_def markdown_list_line_def)
  have d0: "add_list_to_docx U [[]] = []"
    by (simp add: add_list_to_docx_def docx_list_line_def)
  note rest = block_to_markdown_list_append [of U xs ys] m0 markdown_list_item [of f U others]
    markdown_plain_line [of f U others] add_list_to_docx_append [of U xs ys] d0
    docx_list_item [of f U others] docx_plain_line [of f U others]
  from h1 h2 h3 h4 rest show ?thesis
    by (intro conjI impI) (assumption | blast)+
qed

theorem html_list_state_machine_witness:
  "make_span ascii_only AlignLeft zero_bbox (plain_raw_span (str_of ''1. beta''))
     = Some (plain_span (str_of ''1. beta'') True (Some Numbered))
   \<and> sp_is_list (plain_span (str_of ''1. beta'') True (Some Numbered))
   \<and> opened_types (list_machine ascii_only Closed bnb_block) = [Some Bullet, Some Numbered, Some Bullet]
   \<and> map render_html_event (list_machine ascii_only Closed bnb_block) =
       [str_of ''<ul>'', str_of ''<li>alpha</li>'', str_of ''</ul>'',
        str_of ''<ol>'', str_of ''<li>beta</li>'', str_of ''</ol>'',
        str_of ''<ul>'', str_of ''<li>gamma</li>'', str_of ''</ul>'']
   \<and> block_to_markdown_list ascii_only [[plain_span (str_of ''1. beta'') True (Some Numbered)]]
       = [str_of ''1. beta'']
   \<and> add_list_to_docx ascii_only [[plain_span (str_of ''1. beta'') True (Some Numbered)]]
       = [list_paragraph (str_of ''beta'')]
   \<and> \<not> sp_is_list (plain_span (str_of ''note'') False None)
   \<and> block_to_markdown_list ascii_only [[plain_span (str_of ''note'') False None]] = [str_of ''note'']"
  using html_list_state_machine [of ascii_only bnb_block "[]" "[]"
          "plain_span (str_of ''1. beta'') True (Some Numbered)" "[]"]
        html_list_state_machine [of ascii_only bnb_block "[]" "[]"
          "plain_span (str_of ''note'') False None" "[]"]
  by (simp add: bnb_block_def renderer_eval list_detector_eval list_paragraph_def md_emph_def)

text \<open>
  The claim as stated fails for the other two renderers, which keep no list state. The
  structured-document renderer adds one paragraph of style \<open>List Bullet\<close> for every item,
  the numbered one too, so the block with three bullet items gives the same document; the
  lightweight-markup renderer emits one prefixed line for every item.
\<close>

theorem list_containers_counterexample:
  "list_line_types bnb_block = [Some Bullet, Some Numbered, Some Bullet]
   \<and> list_line_types bbb_block = [Some Bullet, Some Bullet, Some Bullet]
   \<and> add_list_to_docx ascii_only bnb_block =
       [list_paragraph (str_of ''alpha''), list_paragraph (str_of ''beta''), list_paragraph (str_of ''gamma'')]
   \<and> add_list_to_docx ascii_only bnb_block = add_list_to_docx ascii_only bbb_block
   \<and> block_to_markdown_list ascii_only bnb_block = [str_of ''- alpha'', str_of ''1. beta'', str_of ''- gamma'']"
  by (simp add: bnb_block_def bbb_block_def list_paragraph_def renderer_eval list_detector_eval)

section \<open>Format Renderers: tables\<close>

lemma thead_not_data_row: "str_of ''<thead><tr>'' \<notin> set (html_data_row row)"
  by (auto simp: html_data_row_def td_line_def str_of_def)

lemma thead_not_data_rows: "str_of ''<thead><tr>'' \<notin> set (concat (map html_data_row rows))"
  using thead_not_data_row by auto

lemma enumerate_below:
  "filter (\<lambda>(j, x). j < n) (enumerate k xs) = take (n - k) (enumerate k xs)"
proof (induction xs arbitrary: k)
  case Nil
  show ?case by simp
next
  case (Cons x xs)
  show ?case
  proof (cases "k < n")
    case True
    then have "n - k = Suc (n - Suc k)" by simp
    with True Cons [of "Suc k"] show ?thesis by simp
  next
    case False
    with Cons [of "Suc k"] show ?thesis by simp
  qed
qed

lemma docx_row_cells_take:
  "docx_row_cells cols i row_data =
     map (\<lambda>(j, cell_data). \<lparr>cell_row = i, cell_col = j, cell_text = cell_or_empty cell_data,
                              cell_bold = (i = 0)\<rparr>)
       (take cols (enumerate 0 row_data))"
proof -
  have "docx_row_cells cols i row_data =
          map (\<lambda>(j, cell_data). \<lparr>cell_row = i, cell_col = j, cell_text = cell_or_empty cell_data,
                                   cell_bold = (i = 0)\<rparr>)
            (filter (\<lambda>(j, x). j < cols) (enumerate 0 row_data))"
    unfolding docx_row_cells_def List.map_filter_def
    by (rule map_cong [OF filter_cong]) (auto split: prod.splits)
  then show ?thesis by (simp add: enumerate_below)
qed

lemma docx_header_cells:
  "docx_row_cells (length first_row) 0 first_row =
     map (\<lambda>(j, cell_data). \<lparr>cell_row = 0, cell_col = j, cell_text = cell_or_empty cell_data,
                              cell_bold = True\<rparr>)
       (enumerate 0 first_row)"
  by (simp add: docx_row_cells_take)

lemma docx_data_cells:
  "(i, row_data) \<in> set (enumerate 1 rest) \<Longrightarrow>
     docx_row_cells cols i row_data =
       map (\<lambda>(j, cell_data). \<lparr>cell_row = i, cell_col = j, cell_text = cell_or_empty cell_data,
                                cell_bold = False\<rparr>)
         (take cols (enumerate 0 row_data))"
  by (auto simp: docx_row_cells_take in_set_enumerate_eq)

lemma add_table_to_docx_cells:
  "add_table_to_docx (first_row # rest) =
     Some \<lparr>tbl_rows = Suc (length rest), tbl_cols = length first_row, tbl_style = ''Table Grid'',
           tbl_cells =
             map (\<lambda>(j, cell_data). \<lparr>cell_row = 0, cell_col = j, cell_text = cell_or_empty cell_data,
                                      cell_bold = True\<rparr>)
               (enumerate 0 first_row)
             @ concat (map (\<lambda>(i, row_data).
                              map (\<lambda>(j, cell_data). \<lparr>cell_row = i, cell_col = j,
                                       cell_text = cell_or_empty cell_data, cell_bold = False\<rparr>)
                                (take (length first_row) (enumerate 0 row_data)))
                            (enumerate 1 rest))\<rparr>"
proof -
  have "map (\<lambda>(i, row_data). docx_row_cells (length first_row) i row_data) (enumerate 1 rest)
        = map (\<lambda>(i, row_data).
                  map (\<lambda>(j, cell_data). \<lparr>cell_row = i, cell_col = j,
                           cell_text = cell_or_empty cell_data, cell_bold = False\<rparr>)
                    (take (length first_row) (enumerate 0 row_data)))
              (enumerate 1 rest)"
    by (rule map_cong) (auto simp: docx_data_cells)
  then have "concat (map (\<lambda>(i, row_data). docx_row_cells (length first_row) i row_data) (enumerate 1 rest))
        = concat (map (\<lambda>(i, row_data).
                  map (\<lambda>(j, cell_data). \<lparr>cell_row = i, cell_col = j,
                           cell_text = cell_or_empty cell_data, cell_bold = False\<rparr>)
                    (take (length first_row) (enumerate 0 row_data)))
              (enumerate 1 rest))"
    by (rule arg_cong)
  then show ?thesis
    by (simp add: add_table_to_docx_def docx_header_cells)
qed

text \<open>
  C5, as the code has it. The HTML renderer renders the first row as a header row iff it
  has a cell that is a string with text left after trimming; otherwise all rows, the first
  included, are data rows. The lightweight-markup renderer renders the first row as the
  header row, followed by the separator, whatever its cells are. The structured-document
  renderer sets every cell of the first row and makes it bold, whatever the cells are,
  and sets the cells of the other rows, up to the number of columns of the first row, not
  bold. In all three a cell that is \<open>None\<close> or empty is rendered as the empty text.
\<close>

theorem table_header_rendering:
  "(str_of ''<thead><tr>'' \<in> set (table_html_lines (first_row # rest)) \<longleftrightarrow> list_ex cell_has_text first_row)
   \<and> (list_ex cell_has_text first_row \<longrightarrow>
        table_html_lines (first_row # rest) =
          [str_of ''<table>'', str_of ''<thead><tr>''] @ map th_line first_row
          @ [str_of ''</tr></thead>'', str_of ''<tbody>''] @ concat (map html_data_row rest)
          @ [str_of ''</tbody>'', str_of ''</table>''])
   \<and> (\<not> list_ex cell_has_text first_row \<longrightarrow>
        table_html_lines (first_row # rest) =
          [str_of ''<table>'', str_of ''<tbody>''] @ concat (map html_data_row (first_row # rest))
          @ [str_of ''</tbody>'', str_of ''</table>''])
   \<and> table_markdown_lines (first_row # rest) =
        markdown_row first_row # markdown_separator first_row # map markdown_row rest
   \<and> add_table_to_docx (first_row # rest) =
        Some \<lparr>tbl_rows = Suc (length rest), tbl_cols = length first_row, tbl_style = ''Table Grid'',
              tbl_cells =
                map (\<lambda>(j, cell_data). \<lparr>cell_row = 0, cell_col = j, cell_text = cell_or_empty cell_data,
                                         cell_bold = True\<rparr>)
                  (enumerate 0 first_row)
                @ concat (map (\<lambda>(i, row_data).
                                 map (\<lambda>(j, cell_data). \<lparr>cell_row = i, cell_col = j,
                                          cell_text = cell_or_empty cell_data, cell_bold = False\<rparr>)
                                   (take (length first_row) (enumerate 0 row_data)))
                               (enumerate 1 rest))\<rparr>
   \<and> cell_or_empty None = [] \<and> cell_or_empty (Some []) = []
   \<and> th_line None = str_of ''<th></th>'' \<and> td_line None = str_of ''<td></td>''
   \<and> markdown_row [None] = str_of ''|  |''"
proof -
  have hh: "has_headers first_row = list_ex cell_has_text first_row"
    by (cases first_row) (simp_all add: has_headers_def)
  have a: "str_of ''<thead><tr>'' \<in> set (table_html_lines (first_row # rest)) \<longleftrightarrow> list_ex cell_has_text first_row"
    using thead_not_data_rows [of "first_row # rest"] thead_not_data_rows [of rest]
    by (auto simp: table_html_lines_def hh str_of_def)
  have b: "(list_ex cell_has_text first_row \<longrightarrow>
        table_html_lines (first_row # rest) =
          [str_of ''<table>'', str_of ''<thead><tr>''] @ map th_line first_row
          @ [str_of ''</tr></thead>'', str_of ''<tbody>''] @ concat (map html_data_row rest)
          @ [str_of ''</tbody>'', str_of ''</table>''])
   \<and> (\<not> list_ex cell_has_text first_row \<longrightarrow>
        table_html_lines (first_row # rest) =
          [str_of ''<table>'', str_of ''<tbody>''] @ concat (map html_data_row (first_row # rest))
          @ [str_of ''</tbody>'', str_of ''</table>''])"
    by (simp add: table_html_lines_def hh)
  have c: "table_markdown_lines (first_row # rest) =
        markdown_row first_row # markdown_separator first_row # map markdown_row rest"
    by (simp add: table_markdown_lines_def)
  have d: "cell_or_empty None = [] \<and> cell_or_empty (Some []) = []
   \<and> th_line None = str_of ''<th></th>'' \<and> td_line None = str_of ''<td></td>''
   \<and> markdown_row [None] = str_of ''|  |''"
    by (simp add: cell_or_empty_def th_line_def td_line_def markdown_row_def str_of_def)
  from a b c d add_table_to_docx_cells [of first_row rest] show ?thesis
    by (intro conjI) (assumption | blast)+
qed

lemmas table_eval =
  table_html_lines_def table_markdown_lines_def add_table_to_docx_def docx_row_cells_def
  has_headers_def cell_has_text_def cell_or_empty_def th_line_def td_line_def html_data_row_def
  markdown_row_def markdown_separator_def List.map_filter_def enumerate_eq_zip py_strip_def
  is_space_def str_of_def

theorem table_header_rendering_witness:
  "list_ex cell_has_text [Some (str_of ''Name''), Some (str_of ''Age'')]
   \<and> table_html_lines ex_grid =
       [str_of ''<table>'', str_of ''<thead><tr>'', str_of ''<th>Name</th>'', str_of ''<th>Age</th>'',
        str_of ''</tr></thead>'', str_of ''<tbody>'', str_of ''<tr>'', str_of ''<td>Ann</td>'',
        str_of ''<td>30</td>'', str_of ''</tr>'', str_of ''</tbody>'', str_of ''</table>'']
   \<and> \<not> list_ex cell_has_text [None, Some (str_of '' '')]
   \<and> table_html_lines [[None, Some (str_of '' '')], [Some (str_of ''x''), None]] =
       [str_of ''<table>'', str_of ''<tbody>'', str_of ''<tr>'', str_of ''<td></td>'',
        str_of ''<td> </td>'', str_of ''</tr>'', str_of ''<tr>'', str_of ''<td>x</td>'',
        str_of ''<td></td>'', str_of ''</tr>'', str_of ''</tbody>'', str_of ''</table>'']
   \<and> add_table_to_docx [[None, Some (str_of '' '')], [Some (str_of ''x''), None, Some (str_of ''y'')]] =
       Some \<lparr>tbl_rows = 2, tbl_cols = 2, tbl_style = ''Table Grid'',
             tbl_cells =
               [\<lparr>cell_row = 0, cell_col = 0, cell_text = [], cell_bold = True\<rparr>,
                \<lparr>cell_row = 0, cell_col = 1, cell_text = str_of '' '', cell_bold = True\<rparr>,
                \<lparr>cell_row = 1, cell_col = 0, cell_text = str_of ''x'', cell_bold = False\<rparr>,
                \<lparr>cell_row = 1, cell_col = 1, cell_text = [], cell_bold = False\<rparr>]\<rparr>"
  using table_header_rendering [of "[Some (str_of ''Name''), Some (str_of ''Age'')]"
           "[[Some (str_of ''Ann''), Some (str_of ''30'')]]"]
        table_header_rendering [of "[None, Some (str_of '' '')]"
           "[[Some (str_of ''x''), None, Some (str_of ''y'')]]"]
  by (simp add: ex_grid_def table_eval)

text \<open>
  The claim as stated fails for the lightweight-markup renderer: a first row without any
  text is still rendered as the header row, with the separator under it, and not as a
  plain data row.
\<close>

theorem markdown_header_counterexample:
  "\<not> list_ex cell_has_text [None]
   \<and> table_markdown_lines [[None], [Some (str_of ''x'')]] = [str_of ''|  |'', str_of ''|---|'', str_of ''| x |'']
   \<and> table_markdown_lines [[None], [Some (str_of ''x'')]] \<noteq> map markdown_row [[None], [Some (str_of ''x'')]]
   \<and> table_to_markdown [[None], [Some (str_of ''x'')]] = str_of ''|  |'' @ [10] @ str_of ''|---|'' @ [10] @ str_of ''| x |''"
  by (simp add: table_to_markdown_def table_eval)

section \<open>Format Renderers: headings in lightweight markup\<close>

text \<open>
  C7. A centered heading is not wrapped: the renderer emits the heading line and appends
  an alignment container that holds the heading text a second time.
\<close>

theorem centered_markdown_heading_repeats_text:
  "block_to_markdown_heading [[ex_title_span]] =
     [str_of ''# Title'' @ [10] @ str_of ''<div align='' @ [34] @ str_of ''center'' @ [34]
      @ str_of ''>Title</div>'']"
  by (simp add: block_to_markdown_heading_def ex_title_span_def div_open_def str_of_def)

end
